theory Spec2Isabelle
  imports Complex_Main "HOL-Library.Log_Nat"
begin

section \<open>Python floats\<close>

text \<open>
  The numbers of \<^verbatim>\<open>app.py\<close> are annotated \<^verbatim>\<open>float\<close>: IEEE-754 binary64 values, whose
  operations round to nearest, ties to even. A float is modelled by its exact rational
  value, or one of the two infinities, or not-a-number; every operation rounds its exact
  result with \<open>fl\<close>. The two zeros are identified: the program never observes the sign of
  a zero (\<^verbatim>\<open>-0.0 == 0.0\<close>, both are falsy, and dividing by either raises). The
  integer literals \<^verbatim>\<open>0\<close> and \<^verbatim>\<open>1\<close> of the source are the floats of the same value, to
  which Python converts them in mixed arithmetic.
\<close>

datatype pyfloat = Fin rat | PInf | NInf | NaN

datatype py_error = TypeError | ZeroDivisionError | IndexError | KeyError

text \<open>A computation that may raise: \<open>Inl\<close> the exception, \<open>Inr\<close> the value.\<close>

definition bind :: "py_error + 'a \<Rightarrow> ('a \<Rightarrow> py_error + 'b) \<Rightarrow> py_error + 'b" where
  "bind m f = (case m of Inl e \<Rightarrow> Inl e | Inr v \<Rightarrow> f v)"

text \<open>\<open>expo x\<close> is the binary exponent of \<open>x \<noteq> 0\<close>: \<open>2 powi expo x \<le> \<bar>x\<bar> < 2 powi (expo x + 1)\<close>.\<close>

definition expo :: "rat \<Rightarrow> int" where
  "expo x = (case quotient_of \<bar>x\<bar> of (p, q) \<Rightarrow>
     let k = bitlen p - bitlen q in if 2 powi k \<le> \<bar>x\<bar> then k else k - 1)"

text \<open>Rounding to the nearest integer, ties to the even one.\<close>

definition rne :: "rat \<Rightarrow> int" where
  "rne x = (let n = \<lfloor>x\<rfloor>; r = x - of_int n in
     if r < 1 / 2 then n else if 1 / 2 < r then n + 1 else if even n then n else n + 1)"

text \<open>
  \<open>rounded x\<close> is \<open>x\<close> rounded to 53 significant bits, with least exponent \<open>-1022\<close>
  (gradual underflow below it). \<open>fl x\<close> is the binary64 result of an operation whose
  exact result is \<open>x\<close>: the rounded value, or an infinity when it reaches \<open>2 ^ 1024\<close>.
\<close>

definition rounded :: "rat \<Rightarrow> rat" where
  "rounded x = (let e = max (expo x) (- 1022) - 52 in of_int (rne (x / 2 powi e)) * 2 powi e)"

definition fl :: "rat \<Rightarrow> pyfloat" where
  "fl x = (let y = rounded x
           in if 2 ^ 1024 \<le> \<bar>y\<bar> then (if 0 < x then PInf else NInf) else Fin y)"

text \<open>A rational is a binary64 value exactly when rounding leaves it alone.\<close>

definition is_double :: "rat \<Rightarrow> bool" where
  "is_double x \<longleftrightarrow> fl x = Fin x"

fun positive :: "pyfloat \<Rightarrow> bool" where
  "positive (Fin a) = (0 < a)"
| "positive PInf = True"
| "positive _ = False"

fun fneg :: "pyfloat \<Rightarrow> pyfloat" where
  "fneg (Fin a) = Fin (- a)"
| "fneg PInf = NInf"
| "fneg NInf = PInf"
| "fneg NaN = NaN"

fun fadd :: "pyfloat \<Rightarrow> pyfloat \<Rightarrow> pyfloat" where
  "fadd NaN y = NaN"
| "fadd x NaN = NaN"
| "fadd (Fin a) (Fin b) = fl (a + b)"
| "fadd PInf NInf = NaN"
| "fadd NInf PInf = NaN"
| "fadd PInf y = PInf"
| "fadd NInf y = NInf"
| "fadd x y = y"

definition fsub :: "pyfloat \<Rightarrow> pyfloat \<Rightarrow> pyfloat" where
  "fsub x y = fadd x (fneg y)"

fun fmul :: "pyfloat \<Rightarrow> pyfloat \<Rightarrow> pyfloat" where
  "fmul NaN y = NaN"
| "fmul x NaN = NaN"
| "fmul (Fin a) (Fin b) = fl (a * b)"
| "fmul x y = (if x = Fin 0 \<or> y = Fin 0 then NaN
               else if positive x = positive y then PInf else NInf)"

text \<open>Python raises \<^verbatim>\<open>ZeroDivisionError\<close> for a float division by zero, whatever the dividend.\<close>

fun fdiv :: "pyfloat \<Rightarrow> pyfloat \<Rightarrow> py_error + pyfloat" where
  "fdiv x (Fin b) =
     (if b = 0 then Inl ZeroDivisionError
      else case x of
        Fin a \<Rightarrow> Inr (fl (a / b))
      | NaN \<Rightarrow> Inr NaN
      | _ \<Rightarrow> Inr (if positive x = (0 < b) then PInf else NInf))"
| "fdiv NaN y = Inr NaN"
| "fdiv x NaN = Inr NaN"
| "fdiv (Fin a) y = Inr (Fin 0)"
| "fdiv x y = Inr NaN"

fun flt :: "pyfloat \<Rightarrow> pyfloat \<Rightarrow> bool" where
  "flt NaN y = False"
| "flt x NaN = False"
| "flt (Fin a) (Fin b) = (a < b)"
| "flt x NInf = False"
| "flt NInf y = True"
| "flt PInf y = False"
| "flt x PInf = True"

fun fle :: "pyfloat \<Rightarrow> pyfloat \<Rightarrow> bool" where
  "fle NaN y = False"
| "fle x NaN = False"
| "fle (Fin a) (Fin b) = (a \<le> b)"
| "fle NInf y = True"
| "fle x PInf = True"
| "fle x y = False"

text \<open>Truth value of a float: everything but zero, not-a-number included.\<close>

definition truthy :: "pyfloat \<Rightarrow> bool" where
  "truthy x \<longleftrightarrow> x \<noteq> Fin 0"

text \<open>\<^verbatim>\<open>max(a, b)\<close> keeps its first argument unless the second compares greater.\<close>

definition py_max :: "pyfloat \<Rightarrow> pyfloat \<Rightarrow> pyfloat" where
  "py_max a b = (if flt a b then b else a)"

text \<open>An optional float is \<^verbatim>\<open>None\<close> or a float; \<^verbatim>\<open>a or b\<close> is \<open>a\<close> when \<open>a\<close> is truthy.\<close>

fun truthy_opt :: "pyfloat option \<Rightarrow> bool" where
  "truthy_opt None = False"
| "truthy_opt (Some x) = truthy x"

definition py_or :: "pyfloat option \<Rightarrow> pyfloat option \<Rightarrow> pyfloat option" where
  "py_or a b = (if truthy_opt a then a else b)"

section \<open>Label normalisation\<close>

text \<open>
  A label is a string of code points below 256 (ASCII and the rest of Latin-1).
  \<open>py_isspace\<close> and \<open>py_lower\<close> are Python's \<^verbatim>\<open>str.isspace\<close> and \<^verbatim>\<open>str.lower\<close> on these code
  points, where \<^verbatim>\<open>str.lower\<close> maps character by character and stays below 256. Labels with
  characters of higher code points are outside the model; the statements about all labels
  are statements about the labels of this range.
\<close>

definition py_isspace :: "char \<Rightarrow> bool" where
  "py_isspace c \<longleftrightarrow> (let n = (of_char c :: nat) in
     (9 \<le> n \<and> n \<le> 13) \<or> (28 \<le> n \<and> n \<le> 32) \<or> n = 133 \<or> n = 160)"

definition py_lower :: "char \<Rightarrow> char" where
  "py_lower c = (let n = (of_char c :: nat) in
     if (65 \<le> n \<and> n \<le> 90) \<or> (192 \<le> n \<and> n \<le> 222 \<and> n \<noteq> 215) then char_of (n + 32) else c)"

definition strip :: "string \<Rightarrow> string" where
  "strip s = rev (dropWhile py_isspace (rev (dropWhile py_isspace s)))"

definition lower :: "string \<Rightarrow> string" where
  "lower s = map py_lower s"

text \<open>\<^verbatim>\<open>s.replace(c, "")\<close> for a one-character \<open>c\<close>.\<close>

definition remove_char :: "char \<Rightarrow> string \<Rightarrow> string" where
  "remove_char c s = filter (\<lambda>d. d \<noteq> c) s"

definition normalize_label :: "string \<Rightarrow> string" where
  "normalize_label label = remove_char (CHR ''_'') (remove_char (CHR '' '') (lower (strip label)))"

section \<open>Total debt from a balance sheet\<close>

text \<open>
  A balance sheet is a data frame: column labels, and rows of a label and one value per
  column. \<^verbatim>\<open>balance_sheet.index\<close> is the list of row labels.
\<close>

record balance_sheet =
  columns :: "string list"
  rows :: "(string \<times> pyfloat list) list"

definition index :: "balance_sheet \<Rightarrow> string list" where
  "index bs = map fst (rows bs)"

definition empty :: "balance_sheet \<Rightarrow> bool" where
  "empty bs \<longleftrightarrow> rows bs = [] \<or> columns bs = []"

text \<open>
  \<^verbatim>\<open>frame.loc[r, c]\<close> selects by label. It is a single value when \<open>r\<close> names one row and
  \<open>c\<close> one column, and a series or a frame when a label is repeated.
\<close>

datatype selection = Scalar pyfloat | NonScalar

definition loc :: "balance_sheet \<Rightarrow> string \<Rightarrow> string \<Rightarrow> py_error + selection" where
  "loc bs r c =
     (case (filter (\<lambda>row. fst row = r) (rows bs),
            filter (\<lambda>j. columns bs ! j = c) [0..<length (columns bs)]) of
        ([], _) \<Rightarrow> Inl KeyError
      | (_, []) \<Rightarrow> Inl KeyError
      | ([row], [j]) \<Rightarrow> (if j < length (snd row) then Inr (Scalar (snd row ! j)) else Inl KeyError)
      | _ \<Rightarrow> Inr NonScalar)"

text \<open>\<^verbatim>\<open>math.isnan\<close> raises \<^verbatim>\<open>TypeError\<close> on a series of several values.\<close>

fun isnan :: "selection \<Rightarrow> py_error + bool" where
  "isnan (Scalar x) = Inr (x = NaN)"
| "isnan NonScalar = Inl TypeError"

definition debt_labels :: "string set" where
  "debt_labels = {''totaldebt'', ''longtermdebt'', ''shortlongtermdebttotal'',
                  ''longtermdebttotal'', ''shorttermdebttotal''}"

text \<open>The loop over \<^verbatim>\<open>balance_sheet.index\<close>: the first label that matches returns.\<close>

fun scan_index :: "balance_sheet \<Rightarrow> string list \<Rightarrow> py_error + pyfloat option" where
  "scan_index bs [] = Inr None"
| "scan_index bs (raw_label # rest) =
     (let normalized = normalize_label raw_label in
      if normalized \<in> debt_labels then
        (case columns bs of
           [] \<Rightarrow> Inl IndexError
         | first_column # _ \<Rightarrow>
             (case loc bs raw_label first_column of
                Inl e \<Rightarrow> Inl e
              | Inr v \<Rightarrow>
                  (case isnan v of
                     Inl e \<Rightarrow> Inl e
                   | Inr b \<Rightarrow> (case v of Scalar x \<Rightarrow> Inr (if \<not> b then Some x else None)
                                         | NonScalar \<Rightarrow> Inl TypeError))))
      else scan_index bs rest)"

definition extract_total_debt :: "balance_sheet option \<Rightarrow> py_error + pyfloat option" where
  "extract_total_debt balance_sheet =
     (case balance_sheet of
        None \<Rightarrow> Inr None
      | Some bs \<Rightarrow> if empty bs then Inr None else scan_index bs (index bs))"

definition get_first_balance_sheet ::
  "balance_sheet option \<Rightarrow> balance_sheet option \<Rightarrow> balance_sheet option" where
  "get_first_balance_sheet annual quarterly =
     (case List.find (\<lambda>frame. case frame of None \<Rightarrow> False | Some f \<Rightarrow> \<not> empty f)
             [annual, quarterly] of
        Some frame \<Rightarrow> frame
      | None \<Rightarrow> None)"

section \<open>Fetching the metrics of a ticker\<close>

text \<open>
  What the data source answers for one ticker: the quote snapshot (\<^verbatim>\<open>fast_info\<close>, each
  key absent or present), the closes of the last five days, the beta of the extended
  info, and the two balance sheets.
\<close>

record fast_info =
  fi_last_price :: "pyfloat option"
  fi_previous_close :: "pyfloat option"
  fi_shares_outstanding :: "pyfloat option"
  fi_market_cap :: "pyfloat option"
  fi_beta :: "pyfloat option"

record ticker =
  fast_info :: fast_info
  history_close :: "pyfloat list"
  info_beta :: "pyfloat option"
  annual_balance_sheet :: "balance_sheet option"
  quarterly_balance_sheet :: "balance_sheet option"

record metrics =
  price :: "pyfloat option"
  shares_outstanding :: "pyfloat option"
  market_cap :: "pyfloat option"
  beta :: "pyfloat option"
  total_debt :: "pyfloat option"

definition fetch_ticker_metrics :: "ticker \<Rightarrow> py_error + metrics" where
  "fetch_ticker_metrics t =
     (let fi = fast_info t;
          price0 = py_or (fi_last_price fi) (fi_previous_close fi);
          price = (if price0 = None
                   then (if history_close t \<noteq> [] then Some (last (history_close t)) else None)
                   else price0);
          shares_outstanding = fi_shares_outstanding fi;
          market_cap0 = fi_market_cap fi;
          market_cap = (if market_cap0 = None \<and> price \<noteq> None \<and> truthy_opt shares_outstanding
                        then Some (fmul (the price) (the shares_outstanding))
                        else market_cap0);
          beta = py_or (info_beta t) (fi_beta fi);
          balance_sheet = get_first_balance_sheet (annual_balance_sheet t) (quarterly_balance_sheet t)
      in bind (extract_total_debt balance_sheet) (\<lambda>total_debt.
           Inr \<lparr>price = price, shares_outstanding = shares_outstanding,
                market_cap = market_cap, beta = beta, total_debt = total_debt\<rparr>))"

section \<open>The WACC calculator\<close>

record wacc_result =
  equity_weight :: pyfloat
  debt_weight :: pyfloat
  cost_of_equity :: pyfloat
  after_tax_cost_of_debt :: pyfloat
  wacc :: pyfloat

definition calculate_wacc ::
  "pyfloat \<Rightarrow> pyfloat \<Rightarrow> pyfloat \<Rightarrow> pyfloat \<Rightarrow> pyfloat \<Rightarrow> pyfloat \<Rightarrow> pyfloat
     \<Rightarrow> py_error + wacc_result" where
  "calculate_wacc =
     (\<lambda>market_cap total_debt risk_free_rate market_risk_premium cost_of_debt tax_rate beta.
      let equity_value = market_cap;
          debt_value = py_max total_debt (Fin 0);
          total_capital = fadd equity_value debt_value
      in bind (if truthy total_capital then fdiv equity_value total_capital else Inr (Fin 0))
           (\<lambda>equity_weight.
         bind (if truthy total_capital then fdiv debt_value total_capital else Inr (Fin 0))
           (\<lambda>debt_weight.
      (let cost_of_equity = fadd risk_free_rate (fmul beta market_risk_premium);
           after_tax_cost_of_debt = fmul cost_of_debt (fsub (Fin 1) tax_rate);
           wacc = fadd (fmul equity_weight cost_of_equity) (fmul debt_weight after_tax_cost_of_debt)
       in Inr \<lparr>equity_weight = equity_weight, debt_weight = debt_weight,
                cost_of_equity = cost_of_equity,
                after_tax_cost_of_debt = after_tax_cost_of_debt, wacc = wacc\<rparr>))))"

section \<open>The submit handler\<close>

text \<open>
  The form gives the ticker symbol (already stripped and upper-cased), four percentages
  and the manual market capitalisation. The handler reports an error message, or calls
  the calculator; \<open>Computed\<close> records the market capitalisation, the beta and the total
  debt it passed, and the result.
\<close>

datatype outcome =
    NotSubmitted
  | MissingTicker
  | NoMarketCap
  | Computed pyfloat pyfloat pyfloat wacc_result

definition percent :: "pyfloat \<Rightarrow> py_error + pyfloat" where
  "percent x = fdiv x (Fin 100)"

definition submit ::
  "bool \<Rightarrow> string \<Rightarrow> pyfloat \<Rightarrow> pyfloat \<Rightarrow> pyfloat \<Rightarrow> pyfloat \<Rightarrow> pyfloat \<Rightarrow> ticker
     \<Rightarrow> py_error + outcome" where
  "submit submitted ticker_symbol risk_free_rate_pct market_risk_premium_pct cost_of_debt_pct
     tax_rate_pct manual_market_cap t =
     (if \<not> submitted then Inr NotSubmitted
      else if ticker_symbol = [] then Inr MissingTicker
      else bind (fetch_ticker_metrics t) (\<lambda>metrics.
        case py_or (Some manual_market_cap) (market_cap metrics) of
          None \<Rightarrow> Inr NoMarketCap
        | Some mc \<Rightarrow>
            if fle mc (Fin 0) then Inr NoMarketCap
            else
              (let beta = the (py_or (beta metrics) (Some (Fin 1)));
                   total_debt = the (py_or (total_debt metrics) (Some (Fin 0)))
               in bind (percent risk_free_rate_pct) (\<lambda>risk_free_rate.
                  bind (percent market_risk_premium_pct) (\<lambda>market_risk_premium.
                  bind (percent cost_of_debt_pct) (\<lambda>cost_of_debt.
                  bind (percent tax_rate_pct) (\<lambda>tax_rate.
                  bind (calculate_wacc mc total_debt risk_free_rate market_risk_premium
                          cost_of_debt tax_rate beta) (\<lambda>wacc_inputs.
                  Inr (Computed mc beta total_debt wacc_inputs)))))))))"

section \<open>Well-formed sheets, plain labels and observations\<close>

text \<open>
  In a well-formed sheet the row labels are distinct, the column labels are distinct, and
  every row has one value per column: labels identify rows and columns.
\<close>

definition well_formed :: "balance_sheet \<Rightarrow> bool" where
  "well_formed bs \<longleftrightarrow>
     distinct (index bs) \<and> distinct (columns bs) \<and>
     (\<forall>row \<in> set (rows bs). length (snd row) = length (columns bs))"

text \<open>A label whose only whitespace characters are spaces.\<close>

definition plain_spaces :: "string \<Rightarrow> bool" where
  "plain_spaces l \<longleftrightarrow> (\<forall>c \<in> set l. py_isspace c \<longrightarrow> c = CHR '' '')"

text \<open>What a submission passed to the calculator, if it reached it.\<close>

fun passed_beta :: "py_error + outcome \<Rightarrow> pyfloat option" where
  "passed_beta (Inr (Computed mc b td r)) = Some b"
| "passed_beta _ = None"

text \<open>Sample inputs.\<close>

definition sheet_two_debts :: balance_sheet where
  "sheet_two_debts =
     \<lparr>columns = [''2023-12-31'', ''2022-12-31''],
      rows = [(''Cash'', [Fin 7, Fin 8]),
              (''Long Term Debt'', [Fin 5, Fin 6]),
              (''Total Debt'', [Fin 10, Fin 11])]\<rparr>"

definition sheet_nan_debt :: balance_sheet where
  "sheet_nan_debt =
     \<lparr>columns = [''2023-12-31'', ''2022-12-31''],
      rows = [(''Cash'', [Fin 7, Fin 8]),
              (''Long Term Debt'', [NaN, Fin 6]),
              (''Total Debt'', [Fin 10, Fin 11])]\<rparr>"

text \<open>
  Sheets in which a label is repeated: the first column's label, the label of the first debt
  row, and the label of the first debt row again in a later row.
\<close>

definition sheet_repeated_column :: balance_sheet where
  "sheet_repeated_column =
     \<lparr>columns = [''2023-12-31'', ''2023-12-31''],
      rows = [(''Cash'', [Fin 7, Fin 8]),
              (''Long Term Debt'', [NaN, Fin 6])]\<rparr>"

definition sheet_repeated_row :: balance_sheet where
  "sheet_repeated_row =
     \<lparr>columns = [''2023-12-31'', ''2022-12-31''],
      rows = [(''Long Term Debt'', [NaN, Fin 6]),
              (''Long Term Debt'', [NaN, Fin 4])]\<rparr>"

definition sheet_repeated_later :: balance_sheet where
  "sheet_repeated_later =
     \<lparr>columns = [''2023-12-31'', ''2022-12-31''],
      rows = [(''Cash'', [Fin 7, Fin 8]),
              (''Long Term Debt'', [NaN, Fin 6]),
              (''Total Debt'', [Fin 10, Fin 11]),
              (''Long Term Debt'', [Fin 5, Fin 4])]\<rparr>"

definition no_fast_info :: fast_info where
  "no_fast_info = \<lparr>fi_last_price = None, fi_previous_close = None,
     fi_shares_outstanding = None, fi_market_cap = None, fi_beta = None\<rparr>"

definition ticker_of :: "fast_info \<Rightarrow> ticker" where
  "ticker_of fi = \<lparr>fast_info = fi, history_close = [], info_beta = None,
     annual_balance_sheet = None, quarterly_balance_sheet = None\<rparr>"

section \<open>Rounding\<close>

lemma pow2_int_rat: "0 \<le> n \<Longrightarrow> (of_int (2 ^ nat n) :: rat) = 2 powi n"
  by (simp add: power_int_nonneg_exp)

lemma expo_raw:
  assumes "x \<noteq> 0" and pq: "quotient_of \<bar>x\<bar> = (p, q)"
  shows "2 powi (bitlen p - bitlen q - 1) < \<bar>x\<bar>" and "\<bar>x\<bar> < 2 powi (bitlen p - bitlen q + 1)"
proof -
  have q: "0 < q" using quotient_of_denom_pos[OF pq] .
  have x: "\<bar>x\<bar> = of_int p / of_int q" using quotient_of_div[OF pq] .
  have "0 < \<bar>x\<bar>" using assms(1) by simp
  then have p: "0 < p" using q x by (simp add: zero_less_divide_iff)
  have bp1: "1 \<le> bitlen p" and bq1: "1 \<le> bitlen q"
    using p q bitlen_eq_zero_iff[of p] bitlen_eq_zero_iff[of q] bitlen_nonneg[of p] bitlen_nonneg[of q]
    by linarith+
  have "(of_int (2 ^ nat (bitlen p - 1)) :: rat) \<le> of_int p"
    using bitlen_bounds[OF p] by (subst of_int_le_iff) simp
  then have pl: "2 powi (bitlen p - 1) \<le> (of_int p :: rat)"
    using bp1 by (simp add: power_int_nonneg_exp)
  have "(of_int p :: rat) < of_int (2 ^ nat (bitlen p))"
    using bitlen_bounds[OF p] by (subst of_int_less_iff) simp
  then have pu: "(of_int p :: rat) < 2 powi (bitlen p)"
    using bp1 by (simp add: power_int_nonneg_exp)
  have "(of_int (2 ^ nat (bitlen q - 1)) :: rat) \<le> of_int q"
    using bitlen_bounds[OF q] by (subst of_int_le_iff) simp
  then have ql: "2 powi (bitlen q - 1) \<le> (of_int q :: rat)"
    using bq1 by (simp add: power_int_nonneg_exp)
  have "(of_int q :: rat) < of_int (2 ^ nat (bitlen q))"
    using bitlen_bounds[OF q] by (subst of_int_less_iff) simp
  then have qu: "(of_int q :: rat) < 2 powi (bitlen q)"
    using bq1 by (simp add: power_int_nonneg_exp)
  have qpos: "(0::rat) < of_int q" using q by simp
  have ppos: "(0::rat) < of_int p" using p by simp
  have "2 powi (bitlen p - bitlen q - 1) = (2 powi (bitlen p - 1) :: rat) / 2 powi (bitlen q)"
    by (simp add: power_int_diff)
  also have "\<dots> \<le> of_int p / 2 powi (bitlen q)"
    using pl by (simp add: divide_right_mono)
  also have "\<dots> < of_int p / of_int q"
    using qu qpos ppos by (simp add: divide_strict_left_mono)
  finally show "2 powi (bitlen p - bitlen q - 1) < \<bar>x\<bar>" using x by simp
  have "\<bar>x\<bar> = of_int p / of_int q" by (rule x)
  also have "\<dots> < 2 powi (bitlen p) / of_int q"
    using pu qpos by (simp add: divide_strict_right_mono)
  also have "\<dots> \<le> 2 powi (bitlen p) / 2 powi (bitlen q - 1)"
    using ql qpos by (intro divide_left_mono) (simp_all add: zero_less_power_int)
  also have "\<dots> = 2 powi (bitlen p - bitlen q + 1)"
    by (simp add: power_int_diff power_int_add)
  finally show "\<bar>x\<bar> < 2 powi (bitlen p - bitlen q + 1)" .
qed

lemma expo_bounds:
  assumes "x \<noteq> 0"
  shows "2 powi expo x \<le> \<bar>x\<bar>" and "\<bar>x\<bar> < 2 powi (expo x + 1)"
proof -
  obtain p q where pq: "quotient_of \<bar>x\<bar> = (p, q)" by fastforce
  note r = expo_raw[OF assms pq]
  show "2 powi expo x \<le> \<bar>x\<bar>"
    using r pq by (auto simp: expo_def Let_def)
  show "\<bar>x\<bar> < 2 powi (expo x + 1)"
    using r pq by (auto simp: expo_def Let_def)
qed

lemma pow2_le_iff: "(2::rat) powi a \<le> 2 powi b \<longleftrightarrow> a \<le> b"
proof
  assume h: "(2::rat) powi a \<le> 2 powi b"
  show "a \<le> b"
  proof (rule ccontr)
    assume "\<not> a \<le> b"
    then have "b < a" by simp
    from power_int_strict_increasing[OF this, of "2::rat"] have "(2::rat) powi b < 2 powi a" by simp
    with h show False by simp
  qed
next
  assume "a \<le> b"
  then show "(2::rat) powi a \<le> 2 powi b" by (intro power_int_increasing) simp_all
qed

lemma pow2_less_iff: "(2::rat) powi a < 2 powi b \<longleftrightarrow> a < b"
  using pow2_le_iff[of b a] by (simp add: not_le[symmetric])

lemma pow2_pos: "(0::rat) < 2 powi a"
  by (simp add: zero_less_power_int)

lemma expo_unique:
  assumes "2 powi k \<le> \<bar>x\<bar>" and "\<bar>x\<bar> < 2 powi (k + 1)"
  shows "expo x = k"
proof -
  have "x \<noteq> 0"
  proof
    assume "x = 0"
    with assms(1) have "(2::rat) powi k \<le> 0" by simp
    with pow2_pos[of k] show False by linarith
  qed
  note b = expo_bounds[OF this]
  have "(2::rat) powi k < 2 powi (expo x + 1)" using assms(1) b(2) by linarith
  then have 1: "k < expo x + 1" by (simp only: pow2_less_iff)
  have "(2::rat) powi expo x < 2 powi (k + 1)" using assms(2) b(1) by linarith
  then have 2: "expo x < k + 1" by (simp only: pow2_less_iff)
  from 1 2 show ?thesis by linarith
qed

lemma rne_of_int: "rne (of_int m) = m"
  by (simp add: rne_def)

lemma rne_err: "\<bar>of_int (rne x) - x\<bar> \<le> 1 / 2"
proof -
  have "of_int \<lfloor>x\<rfloor> \<le> x" "x < of_int \<lfloor>x\<rfloor> + 1" by linarith+
  then show ?thesis by (auto simp: rne_def Let_def)
qed

lemma rne_near:
  assumes "\<bar>x - of_int m\<bar> < 1 / 2"
  shows "rne x = m"
proof (cases "of_int m \<le> x")
  case True
  then have "\<lfloor>x\<rfloor> = m" using assms by (intro floor_unique) auto
  then show ?thesis using assms True by (simp add: rne_def)
next
  case False
  then have "\<lfloor>x\<rfloor> = m - 1" using assms by (intro floor_unique) auto
  then show ?thesis using assms False by (simp add: rne_def)
qed

lemma rounded_zero: "rounded 0 = 0"
  by (simp add: rounded_def rne_def)

lemma fl_zero: "fl 0 = Fin 0"
  by (simp add: fl_def rounded_zero)

lemma rounded_normal:
  assumes "2 powi k \<le> \<bar>x\<bar>" and "\<bar>x\<bar> < 2 powi (k + 1)" and "- 1022 \<le> k"
  shows "rounded x = of_int (rne (x / 2 powi (k - 52))) * 2 powi (k - 52)"
  using expo_unique[OF assms(1,2)] assms(3) by (simp add: rounded_def max_def Let_def)

lemma rounded_subnormal:
  assumes "\<bar>x\<bar> < 2 powi (- 1022)"
  shows "rounded x = of_int (rne (x / 2 powi (- 1074))) * 2 powi (- 1074)"
proof (cases "x = 0")
  case True
  then show ?thesis by (simp add: rounded_zero rne_def)
next
  case False
  have "(2::rat) powi expo x < 2 powi (- 1022)" using expo_bounds(1)[OF False] assms by linarith
  then have "expo x < - 1022" by (simp only: pow2_less_iff)
  then show ?thesis by (simp add: rounded_def max_def Let_def)
qed

lemma fl_eqI:
  assumes "2 powi k \<le> \<bar>x\<bar>" and "\<bar>x\<bar> < 2 powi (k + 1)" and "- 1022 \<le> k"
    and "\<bar>x / 2 powi (k - 52) - of_int m\<bar> < 1 / 2"
    and "\<bar>of_int m * 2 powi (k - 52)\<bar> < (2::rat) ^ 1024"
  shows "fl x = Fin (of_int m * 2 powi (k - 52))"
  using rounded_normal[OF assms(1,2,3)] rne_near[OF assms(4)] assms(5)
  by (simp add: fl_def)

subsection \<open>Rounding errors\<close>

lemma pow2_nz: "(2::rat) powi k \<noteq> 0"
  by simp

lemma rounded_at_error:
  "\<bar>of_int (rne (x / 2 powi e)) * 2 powi e - x\<bar> \<le> 2 powi (e - 1)"
proof -
  define y where "y = x / 2 powi e"
  have p: "(0::rat) < 2 powi e" by (rule pow2_pos)
  have x: "x = y * 2 powi e" using p by (simp add: y_def)
  have "\<bar>of_int (rne y) * 2 powi e - y * 2 powi e\<bar> = \<bar>of_int (rne y) - y\<bar> * 2 powi e"
    using p by (simp add: abs_mult left_diff_distrib[symmetric])
  also have "\<dots> \<le> (1 / 2) * 2 powi e"
    using rne_err[of y] p by (intro mult_right_mono) simp_all
  also have "\<dots> = 2 powi (e - 1)"
    by (simp add: power_int_diff)
  finally show ?thesis unfolding x y_def[symmetric] by simp
qed

lemma rounded_error:
  "\<bar>rounded x - x\<bar> \<le> 2 powi (- 53) * \<bar>x\<bar> + 2 powi (- 1075)"
proof (cases "x = 0")
  case True
  then show ?thesis by (simp add: rounded_zero)
next
  case False
  show ?thesis
  proof (cases "- 1022 \<le> expo x")
    case True
    then have r: "rounded x = of_int (rne (x / 2 powi (expo x - 52))) * 2 powi (expo x - 52)"
      by (simp add: rounded_def max_def Let_def)
    have "\<bar>rounded x - x\<bar> \<le> 2 powi (expo x - 52 - 1)"
      unfolding r by (rule rounded_at_error)
    also have "\<dots> = 2 powi (- 53) * 2 powi expo x"
      by (simp add: power_int_diff)
    also have "\<dots> \<le> 2 powi (- 53) * \<bar>x\<bar>"
      using expo_bounds(1)[OF False] by (intro mult_left_mono) simp_all
    finally have "\<bar>rounded x - x\<bar> \<le> 2 powi (- 53) * \<bar>x\<bar>" .
    moreover have "(0::rat) \<le> 2 powi (- 1075)" by simp
    ultimately show ?thesis by linarith
  next
    case False
    then have r: "rounded x = of_int (rne (x / 2 powi (- 1074))) * 2 powi (- 1074)"
      by (simp add: rounded_def max_def Let_def)
    have "\<bar>rounded x - x\<bar> \<le> 2 powi (- 1074 - 1)"
      unfolding r by (rule rounded_at_error)
    then have "\<bar>rounded x - x\<bar> \<le> 2 powi (- 1075)" by simp
    moreover have "(0::rat) \<le> 2 powi (- 53) * \<bar>x\<bar>" by simp
    ultimately show ?thesis by linarith
  qed
qed

lemma rounded_error_normal:
  assumes "2 powi (- 1022) \<le> \<bar>x\<bar>"
  shows "\<bar>rounded x - x\<bar> \<le> 2 powi (- 53) * \<bar>x\<bar>"
proof -
  have nz: "x \<noteq> 0"
  proof
    assume "x = 0"
    with assms have "(2::rat) powi (- 1022) \<le> 0" by simp
    with pow2_pos[of "- 1022"] show False by linarith
  qed
  have "(2::rat) powi (- 1022) < 2 powi (expo x + 1)"
    using assms expo_bounds(2)[OF nz] by linarith
  then have "- 1022 < expo x + 1" by (simp only: pow2_less_iff)
  then have "- 1022 \<le> expo x" by simp
  then have r: "rounded x = of_int (rne (x / 2 powi (expo x - 52))) * 2 powi (expo x - 52)"
    by (simp add: rounded_def max_def Let_def)
  have "\<bar>rounded x - x\<bar> \<le> 2 powi (expo x - 52 - 1)"
    unfolding r by (rule rounded_at_error)
  also have "\<dots> = 2 powi (- 53) * 2 powi expo x"
    by (simp add: power_int_diff)
  also have "\<dots> \<le> 2 powi (- 53) * \<bar>x\<bar>"
    using expo_bounds(1)[OF nz] by (intro mult_left_mono) simp_all
  finally show ?thesis .
qed

lemma fl_Fin: "fl x = Fin y \<Longrightarrow> y = rounded x"
  by (auto simp: fl_def Let_def split: if_splits)

lemma fl_small:
  assumes "\<bar>x\<bar> \<le> 4"
  shows "fl x = Fin (rounded x)"
proof -
  have "\<bar>rounded x - x\<bar> \<le> 2 powi (- 53) * \<bar>x\<bar> + 2 powi (- 1075)" by (rule rounded_error)
  moreover have "(2::rat) powi (- 1075) \<le> 2 powi (- 53)" by (simp only: pow2_le_iff)
  moreover have "(2::rat) powi (- 53) * \<bar>x\<bar> \<le> 2 powi (- 53) * 4"
    using assms by (intro mult_left_mono) simp_all
  moreover have "(2::rat) powi (- 53) \<le> 1" 
    using pow2_le_iff[of "- 53" 0] by simp
  ultimately have "\<bar>rounded x\<bar> \<le> 9" using assms by linarith
  moreover have "(9::rat) < 2 ^ 1024"
  proof -
    have "(9::rat) < 2 ^ 4" by simp
    also have "\<dots> \<le> 2 ^ 1024" by (intro power_increasing) simp_all
    finally show ?thesis .
  qed
  ultimately show ?thesis by (simp add: fl_def Let_def)
qed

lemma double_grid:
  assumes "is_double a"
  shows "\<exists>n::int. a = of_int n * 2 powi (- 1074)"
proof -
  define e where "e = max (expo a) (- 1022) - 52"
  define m where "m = rne (a / 2 powi e)"
  have e: "- 1074 \<le> e" by (simp add: e_def)
  have "a = rounded a" using assms fl_Fin by (simp add: is_double_def)
  then have A: "a = of_int m * 2 powi e"
    by (simp add: rounded_def e_def m_def Let_def)
  have B: "(2::rat) powi e = of_int (2 ^ nat (e + 1074)) * 2 powi (- 1074)"
  proof -
    have "(2::rat) powi e = 2 powi (e + 1074) * 2 powi (- 1074)"
      by (subst power_int_add[symmetric]) simp_all
    also have "(2::rat) powi (e + 1074) = of_int (2 ^ nat (e + 1074))"
      using e by (simp add: power_int_nonneg_exp)
    finally show ?thesis .
  qed
  have "of_int m * 2 powi e = of_int m * (of_int (2 ^ nat (e + 1074)) * (2::rat) powi (- 1074))"
    by (simp only: B[symmetric])
  also have "\<dots> = of_int (m * 2 ^ nat (e + 1074)) * 2 powi (- 1074)"
    by (simp only: of_int_mult mult.assoc)
  finally have "a = of_int (m * 2 ^ nat (e + 1074)) * 2 powi (- 1074)"
    using A by (simp only:)
  then show ?thesis by blast
qed

lemma rounded_grid_exact:
  assumes "\<bar>x\<bar> < 2 powi (- 1022)" and "x = of_int n * 2 powi (- 1074)"
  shows "rounded x = x"
proof -
  have "x / 2 powi (- 1074) = of_int n"
    unfolding assms(2) by (rule nonzero_mult_div_cancel_right[OF pow2_nz])
  then have "rounded x = of_int n * 2 powi (- 1074)"
    by (simp only: rounded_subnormal[OF assms(1)] rne_of_int)
  then show ?thesis by (simp only: assms(2))
qed

lemma add_error:
  assumes "is_double a" and "is_double b"
  shows "\<bar>rounded (a + b) - (a + b)\<bar> \<le> 2 powi (- 53) * \<bar>a + b\<bar>"
proof (cases "2 powi (- 1022) \<le> \<bar>a + b\<bar>")
  case True
  then show ?thesis by (rule rounded_error_normal)
next
  case False
  obtain n m :: int where "a = of_int n * 2 powi (- 1074)" "b = of_int m * 2 powi (- 1074)"
    using double_grid[OF assms(1)] double_grid[OF assms(2)] by blast
  then have "a + b = of_int (n + m) * 2 powi (- 1074)"
    by (simp add: distrib_right)
  from rounded_grid_exact[OF _ this] False have "rounded (a + b) = a + b" by simp
  then show ?thesis by simp
qed

lemma rne_tie_even:
  assumes "even m" and "\<bar>x - of_int m\<bar> = 1 / 2"
  shows "rne x = m"
proof (cases "of_int m \<le> x")
  case True
  then have x: "x = of_int m + 1 / 2" using assms(2) by linarith
  then have "\<lfloor>x\<rfloor> = m" by (intro floor_unique) auto
  then show ?thesis using x assms(1) by (simp add: rne_def)
next
  case False
  then have x: "x = of_int m - 1 / 2" using assms(2) by linarith
  then have "\<lfloor>x\<rfloor> = m - 1" by (intro floor_unique) auto
  then show ?thesis using x assms(1) by (simp add: rne_def)
qed

lemma fl_tieI:
  assumes "2 powi k \<le> \<bar>x\<bar>" and "\<bar>x\<bar> < 2 powi (k + 1)" and "- 1022 \<le> k"
    and "\<bar>x / 2 powi (k - 52) - of_int m\<bar> = 1 / 2" and "even m"
    and "\<bar>of_int m * 2 powi (k - 52)\<bar> < (2::rat) ^ 1024"
  shows "fl x = Fin (of_int m * 2 powi (k - 52))"
  using rounded_normal[OF assms(1,2,3)] rne_tie_even[OF assms(5,4)] assms(6)
  by (simp add: fl_def)

section \<open>The first matching row decides\<close>

lemma filter_unique_key:
  "distinct (map fst xs) \<Longrightarrow> r \<in> set xs \<Longrightarrow> filter (\<lambda>row. fst row = fst r) xs = [r]"
proof (induction xs)
  case Nil
  then show ?case by simp
next
  case (Cons a xs)
  show ?case
  proof (cases "a = r")
    case True
    have "filter (\<lambda>row. fst row = fst r) xs = []"
      using Cons.prems(1) True by (auto simp: filter_empty_conv image_iff)
    then show ?thesis using True by simp
  next
    case False
    then have "r \<in> set xs" using Cons.prems(2) by simp
    moreover have "fst a \<noteq> fst r" using Cons.prems(1) \<open>r \<in> set xs\<close> by (auto simp: image_iff)
    ultimately show ?thesis using Cons by simp
  qed
qed

lemma first_column_position:
  assumes "c \<notin> set cs"
  shows "filter (\<lambda>j. (c # cs) ! j = c) [0..<length (c # cs)] = [0]"
proof -
  have "[0..<length (c # cs)] = 0 # map Suc [0..<length cs]"
    by (simp add: upt_conv_Cons map_Suc_upt del: upt_Suc)
  moreover have "filter (\<lambda>j. (c # cs) ! j = c) (map Suc [0..<length cs]) = []"
    using assms by (auto simp: filter_empty_conv)
  ultimately show ?thesis by simp
qed

lemma loc_well_formed:
  assumes "well_formed bs" and "row \<in> set (rows bs)" and "columns bs = c # cs"
  shows "loc bs (fst row) c = Inr (Scalar (hd (snd row)))"
proof -
  have 1: "filter (\<lambda>r. fst r = fst row) (rows bs) = [row]"
    using assms(1,2) by (simp add: well_formed_def index_def filter_unique_key)
  have "c \<notin> set cs" using assms(1,3) by (simp add: well_formed_def)
  then have 2: "filter (\<lambda>j. columns bs ! j = c) [0..<length (columns bs)] = [0]"
    using first_column_position[of c cs] assms(3) by simp
  have "length (snd row) = Suc (length cs)"
    using assms by (auto simp: well_formed_def)
  then have 3: "0 < length (snd row)" and 4: "snd row ! 0 = hd (snd row)"
    by (cases "snd row"; simp)+
  show ?thesis using 1 2 3 4 by (simp add: loc_def)
qed

lemma scan_index_find:
  assumes "well_formed bs" and "columns bs = c # cs" and "set rs \<subseteq> set (rows bs)"
  shows "scan_index bs (map fst rs) =
           Inr (case List.find (\<lambda>row. normalize_label (fst row) \<in> debt_labels) rs of
                  None \<Rightarrow> None
                | Some row \<Rightarrow> if hd (snd row) = NaN then None else Some (hd (snd row)))"
  using assms(3)
proof (induction rs)
  case Nil
  then show ?case by simp
next
  case (Cons r rs)
  then have "r \<in> set (rows bs)" by simp
  from loc_well_formed[OF assms(1) this assms(2)] Cons show ?case
    by (simp add: assms(2) Let_def)
qed

lemma extract_total_debt_find:
  assumes "well_formed bs"
  shows "extract_total_debt (Some bs) =
           Inr (if empty bs then None
                else case List.find (\<lambda>row. normalize_label (fst row) \<in> debt_labels) (rows bs) of
                  None \<Rightarrow> None
                | Some row \<Rightarrow> if hd (snd row) = NaN then None else Some (hd (snd row)))"
proof (cases "empty bs")
  case True
  then show ?thesis by (simp add: extract_total_debt_def)
next
  case False
  then obtain c cs where "columns bs = c # cs" by (cases "columns bs") (auto simp: empty_def)
  from scan_index_find[OF assms this, of "rows bs"] False show ?thesis
    by (simp add: extract_total_debt_def index_def)
qed

lemma find_split:
  assumes "\<forall>r \<in> set pre. \<not> P r" and "P row"
  shows "List.find P (pre @ row # post) = Some row"
  using assms by (induction pre) auto

lemma first_match_value:
  assumes "well_formed bs" and "rows bs = pre @ (l, v # vs) # post"
    and "\<forall>r \<in> set pre. normalize_label (fst r) \<notin> debt_labels"
    and "normalize_label l \<in> debt_labels"
  shows "extract_total_debt (Some bs) = Inr (if v = NaN then None else Some v)"
proof -
  have "columns bs \<noteq> []" using assms(1,2) by (auto simp: well_formed_def)
  then have "\<not> empty bs" using assms(2) by (simp add: empty_def)
  moreover have "List.find (\<lambda>row. normalize_label (fst row) \<in> debt_labels) (rows bs) = Some (l, v # vs)"
    unfolding assms(2) using assms(3,4) by (intro find_split) auto
  ultimately show ?thesis using extract_total_debt_find[OF assms(1)] by simp
qed

section \<open>Normalised labels\<close>

lemma of_char_py_lower:
  "(of_char (py_lower c) :: nat) =
     (let n = of_char c in
      if (65 \<le> n \<and> n \<le> 90) \<or> (192 \<le> n \<and> n \<le> 222 \<and> n \<noteq> 215) then n + 32 else n)"
  by (auto simp: py_lower_def Let_def)

lemma py_isspace_lower: "py_isspace (py_lower c) = py_isspace c"
  unfolding py_isspace_def of_char_py_lower by (auto simp: Let_def)

lemma char_eq_code: "c = d \<longleftrightarrow> (of_char c :: nat) = of_char d"
  by simp

lemma py_lower_space: "py_lower c = CHR '' '' \<longleftrightarrow> c = CHR '' ''"
  unfolding char_eq_code[of _ "CHR '' ''"] of_char_py_lower by (auto simp: Let_def)

lemma py_lower_underscore: "py_lower c = CHR ''_'' \<longleftrightarrow> c = CHR ''_''"
  unfolding char_eq_code[of _ "CHR ''_''"] of_char_py_lower by (auto simp: Let_def)

lemma space_isspace: "py_isspace CHR '' ''"
  by (simp add: py_isspace_def)

lemma strip_lower: "strip (lower s) = lower (strip s)"
proof -
  have c: "py_isspace \<circ> py_lower = py_isspace" by (rule ext) (simp add: py_isspace_lower)
  have d: "dropWhile py_isspace (map py_lower xs) = map py_lower (dropWhile py_isspace xs)" for xs
    by (simp add: dropWhile_map c)
  have "strip (lower s) = rev (dropWhile py_isspace (map py_lower (rev (dropWhile py_isspace s))))"
    by (simp add: strip_def lower_def d rev_map)
  also have "\<dots> = lower (strip s)"
    by (simp only: d strip_def lower_def rev_map)
  finally show ?thesis .
qed

lemma remove_char_lower_space: "remove_char CHR '' '' (lower s) = lower (remove_char CHR '' '' s)"
  by (induction s) (auto simp: remove_char_def lower_def py_lower_space)

lemma remove_char_lower_underscore: "remove_char CHR ''_'' (lower s) = lower (remove_char CHR ''_'' s)"
  by (induction s) (auto simp: remove_char_def lower_def py_lower_underscore)

lemma normalize_label_alt:
  "normalize_label l = lower (remove_char CHR ''_'' (remove_char CHR '' '' (strip l)))"
  by (simp add: normalize_label_def remove_char_lower_space remove_char_lower_underscore)

lemma normalize_label_strip_lower:
  "normalize_label l = remove_char CHR ''_'' (remove_char CHR '' '' (strip (lower l)))"
  by (simp add: normalize_label_def strip_lower)

lemma normalize_label_case:
  assumes "lower l1 = lower l2"
  shows "normalize_label l1 = normalize_label l2"
  by (simp add: normalize_label_strip_lower assms)

lemma dropWhile_insert:
  assumes "P s"
  shows "dropWhile P (xs @ s # ys) = dropWhile P (xs @ ys) \<or>
         (\<exists>us. dropWhile P (xs @ s # ys) = us @ s # ys \<and> dropWhile P (xs @ ys) = us @ ys)"
proof (cases "\<forall>x \<in> set xs. P x")
  case True
  then show ?thesis using assms by (simp add: dropWhile_append)
next
  case False
  then have "dropWhile P (xs @ s # ys) = dropWhile P xs @ s # ys"
    and "dropWhile P (xs @ ys) = dropWhile P xs @ ys"
    by (auto simp: dropWhile_append)
  then show ?thesis by blast
qed

lemma strip_insert_space:
  "remove_char CHR '' '' (strip (xs @ CHR '' '' # ys)) = remove_char CHR '' '' (strip (xs @ ys))"
proof -
  let ?D = "dropWhile py_isspace"
  let ?sp = "CHR '' ''"
  consider (same) "?D (xs @ ?sp # ys) = ?D (xs @ ys)"
    | (ins) us where "?D (xs @ ?sp # ys) = us @ ?sp # ys" "?D (xs @ ys) = us @ ys"
    using dropWhile_insert[of py_isspace ?sp xs ys] space_isspace by blast
  then show ?thesis
  proof cases
    case same
    then show ?thesis by (simp add: strip_def)
  next
    case ins
    consider (same2) "?D (rev ys @ ?sp # rev us) = ?D (rev ys @ rev us)"
      | (ins2) ws where "?D (rev ys @ ?sp # rev us) = ws @ ?sp # rev us" "?D (rev ys @ rev us) = ws @ rev us"
      using dropWhile_insert[of py_isspace ?sp "rev ys" "rev us"] space_isspace by blast
    then show ?thesis
    proof cases
      case same2
      then show ?thesis using ins by (simp add: strip_def)
    next
      case ins2
      then show ?thesis using ins by (simp add: strip_def remove_char_def)
    qed
  qed
qed

lemma normalize_label_insert_space:
  "normalize_label (xs @ CHR '' '' # ys) = normalize_label (xs @ ys)"
  by (simp add: normalize_label_alt strip_insert_space)

lemma remove_dropWhile:
  "plain_spaces l \<Longrightarrow> remove_char CHR '' '' (dropWhile py_isspace l) = remove_char CHR '' '' l"
proof (induction l)
  case Nil
  then show ?case by simp
next
  case (Cons a l)
  have pl: "plain_spaces l" using Cons.prems by (simp add: plain_spaces_def)
  show ?case
  proof (cases "py_isspace a")
    case True
    then have "a = CHR '' ''" using Cons.prems by (simp add: plain_spaces_def)
    then show ?thesis using Cons.IH[OF pl] True by (simp add: remove_char_def)
  next
    case False
    then show ?thesis by simp
  qed
qed

lemma plain_spaces_dropWhile: "plain_spaces l \<Longrightarrow> plain_spaces (dropWhile py_isspace l)"
  unfolding plain_spaces_def using set_dropWhileD by fastforce

lemma plain_spaces_rev: "plain_spaces (rev l) = plain_spaces l"
  by (simp add: plain_spaces_def)

lemma remove_char_rev: "remove_char c (rev l) = rev (remove_char c l)"
  by (simp add: remove_char_def rev_filter)

lemma remove_strip:
  assumes "plain_spaces l"
  shows "remove_char CHR '' '' (strip l) = remove_char CHR '' '' l"
proof -
  have "plain_spaces (rev (dropWhile py_isspace l))"
    using assms by (simp add: plain_spaces_rev plain_spaces_dropWhile)
  from remove_dropWhile[OF this] remove_dropWhile[OF assms]
  show ?thesis by (simp add: strip_def remove_char_rev)
qed

lemma normalize_label_plain:
  assumes "plain_spaces l"
  shows "normalize_label l = lower (remove_char CHR ''_'' (remove_char CHR '' '' l))"
  by (simp add: normalize_label_alt remove_strip[OF assms])

lemma normalize_label_insert_underscore:
  assumes "plain_spaces (xs @ ys)"
  shows "normalize_label (xs @ CHR ''_'' # ys) = normalize_label (xs @ ys)"
proof -
  have "plain_spaces (xs @ CHR ''_'' # ys)"
    using assms by (auto simp: plain_spaces_def py_isspace_def)
  from normalize_label_plain[OF this] normalize_label_plain[OF assms]
  show ?thesis by (simp add: remove_char_def)
qed

lemma debt_labels_normal: "s \<in> debt_labels \<Longrightarrow> normalize_label s = s"
  unfolding debt_labels_def by (elim insertE emptyE; hypsubst; code_simp)

section \<open>Evaluation lemmas\<close>

lemma fl_one: "fl 1 = Fin 1"
  using fl_eqI[of 0 1 "2 ^ 52"] by simp

lemma fdiv_total: "y \<noteq> Fin 0 \<Longrightarrow> \<exists>z. fdiv x y = Inr z"
  by (cases x; cases y) auto

lemma calculate_wacc_total: "\<exists>r. calculate_wacc mc td rf mrp cod tr b = Inr r"
proof -
  obtain t where t: "t = fadd mc (py_max td (Fin 0))" by simp
  show ?thesis
  proof (cases "truthy t")
    case True
    then have "t \<noteq> Fin 0" by (simp add: truthy_def)
    from fdiv_total[OF this, of mc] fdiv_total[OF this, of "py_max td (Fin 0)"] True t
    show ?thesis by (auto simp: calculate_wacc_def bind_def Let_def)
  next
    case False
    then show ?thesis using t by (simp add: calculate_wacc_def bind_def Let_def)
  qed
qed

lemma percent_total: "\<exists>y. percent x = Inr y"
  using fdiv_total[of "Fin 100" x] by (simp add: percent_def)

lemma py_max_idem: "py_max (py_max td (Fin 0)) (Fin 0) = py_max td (Fin 0)"
  by (cases td) (auto simp: py_max_def)

lemma well_formed_two_debts: "well_formed sheet_two_debts"
  by (simp add: well_formed_def sheet_two_debts_def index_def)

lemma well_formed_nan_debt: "well_formed sheet_nan_debt"
  by (simp add: well_formed_def sheet_nan_debt_def index_def)

lemma well_formed_prefix:
  assumes "well_formed (bs\<lparr>rows := pre @ row # post\<rparr>)"
  shows "well_formed (bs\<lparr>rows := pre @ [row]\<rparr>)"
  using assms by (auto simp: well_formed_def index_def)

lemma fl_150000000: "fl 150000000 = Fin 150000000"
  using fl_eqI[of 27 150000000 "150000000 * 2 ^ 25"] by simp

lemma calculate_wacc_unit:
  "calculate_wacc (Fin 1) (Fin 0) (Fin 0) (Fin 0) (Fin 0) (Fin 0) (Fin 2)
     = Inr \<lparr>equity_weight = Fin 1, debt_weight = Fin 0, cost_of_equity = Fin 0,
            after_tax_cost_of_debt = Fin 0, wacc = Fin 0\<rparr>"
  by (simp add: calculate_wacc_def bind_def py_max_def truthy_def fsub_def fl_zero fl_one Let_def)

section \<open>Rounding in the calculator\<close>

lemma weights_sum:
  assumes de: "is_double e" and dd: "is_double d" and e0: "0 \<le> e" and d0: "0 \<le> d"
    and t: "fl (e + d) = Fin t" and tpos: "0 < t"
  shows "\<exists>ew dw s. fl (e / t) = Fin ew \<and> fl (d / t) = Fin dw
           \<and> \<bar>ew + dw - 1\<bar> \<le> 2 powi (- 51)
           \<and> fl (ew + dw) = Fin s \<and> \<bar>s - 1\<bar> \<le> 2 powi (- 51)"
proof -
  have u: "(2::rat) powi (- 53) = 1 / 9007199254740992" by simp
  have h0: "(0::rat) \<le> 2 powi (- 1075)" by simp
  have "(2::rat) powi (- 1075) \<le> 2 powi (- 110)" by (simp only: pow2_le_iff)
  also have "(2::rat) powi (- 110) = 1 / 1298074214633706907132624082305024" by simp
  finally have h1: "(2::rat) powi (- 1075) \<le> 1 / 1298074214633706907132624082305024" .
  define h :: rat where "h = 2 powi (- 1075)"
  note h = h0[folded h_def] h1[folded h_def]
  define A where "A = e + d"
  have A0: "0 \<le> A" using e0 d0 by (simp add: A_def)
  have tA: "t = rounded A" using fl_Fin[OF t] by (simp add: A_def)
  have "\<bar>t - A\<bar> \<le> 2 powi (- 53) * \<bar>A\<bar>"
    unfolding tA A_def by (rule add_error[OF de dd])
  then have eA: "\<bar>t - A\<bar> \<le> A / 9007199254740992"
    using A0 by (simp add: u)
  have Apos: "0 < A" using eA tpos by linarith
  define X where "X = A / t"
  define x1 where "x1 = e / t"
  define x2 where "x2 = d / t"
  have x1: "0 \<le> x1" and x2: "0 \<le> x2" using e0 d0 tpos by (simp_all add: x1_def x2_def)
  have X: "X = x1 + x2" by (simp add: X_def A_def x1_def x2_def add_divide_distrib)
  have "A \<le> (9007199254740992 / 9007199254740991) * t" using eA by linarith
  then have X1: "X \<le> 9007199254740992 / 9007199254740991"
    using tpos by (simp add: X_def pos_divide_le_eq)
  have "(9007199254740992 / 9007199254740993) * t \<le> A" using eA by linarith
  then have X0: "9007199254740992 / 9007199254740993 \<le> X"
    using tpos by (simp add: X_def pos_le_divide_eq)
  have "\<bar>x1\<bar> \<le> 4" "\<bar>x2\<bar> \<le> 4" using x1 x2 X X1 by linarith+
  then have f1: "fl x1 = Fin (rounded x1)" and f2: "fl x2 = Fin (rounded x2)"
    by (simp_all add: fl_small)
  define ew where "ew = rounded x1"
  define dw where "dw = rounded x2"
  have "\<bar>ew - x1\<bar> \<le> 2 powi (- 53) * \<bar>x1\<bar> + 2 powi (- 1075)"
    unfolding ew_def by (rule rounded_error)
  then have e1: "\<bar>ew - x1\<bar> \<le> x1 / 9007199254740992 + h"
    using x1 by (simp add: u h_def del: power_int_numeral_neg_numeral power_int_minus)
  have "\<bar>dw - x2\<bar> \<le> 2 powi (- 53) * \<bar>x2\<bar> + 2 powi (- 1075)"
    unfolding dw_def by (rule rounded_error)
  then have e2: "\<bar>dw - x2\<bar> \<le> x2 / 9007199254740992 + h"
    using x2 by (simp add: u h_def del: power_int_numeral_neg_numeral power_int_minus)
  define S where "S = ew + dw"
  have S1: "\<bar>S - X\<bar> \<le> X / 9007199254740992 + 2 * h"
    unfolding S_def X using e1 e2 by (simp only: add_divide_distrib)
  have Slo: "1 / 2 \<le> S" using S1 X0 X1 h by linarith
  have Shi: "S \<le> 4" using S1 X0 X1 h by linarith
  have f3: "fl S = Fin (rounded S)" using Slo Shi by (intro fl_small) simp
  have "(2::rat) powi (- 1022) \<le> 2 powi (- 1)" by (simp only: pow2_le_iff)
  also have "(2::rat) powi (- 1) = 1 / 2" by simp
  finally have "2 powi (- 1022) \<le> \<bar>S\<bar>" using Slo by linarith
  then have "\<bar>rounded S - S\<bar> \<le> 2 powi (- 53) * \<bar>S\<bar>" by (rule rounded_error_normal)
  then have e3: "\<bar>rounded S - S\<bar> \<le> S / 9007199254740992"
    using Slo by (simp add: u)
  have p51: "(2::rat) powi (- 51) = 1 / 2251799813685248" by simp
  have "\<bar>S - 1\<bar> \<le> 1 / 2251799813685248"
    using S1 X0 X1 h by linarith
  then have exact: "\<bar>S - 1\<bar> \<le> 2 powi (- 51)" by (simp add: p51)
  have "\<bar>rounded S - 1\<bar> \<le> 1 / 2251799813685248"
    using e3 S1 X0 X1 h by linarith
  then have "\<bar>rounded S - 1\<bar> \<le> 2 powi (- 51)" by (simp add: p51)
  then show ?thesis
    using f1 f2 f3 exact unfolding x1_def x2_def S_def ew_def dw_def by blast
qed

lemma weights_eq:
  assumes "calculate_wacc mc td rf mrp cod tr b = Inr r"
  shows "fadd mc (py_max td (Fin 0)) = Fin 0 \<longrightarrow> equity_weight r = Fin 0 \<and> debt_weight r = Fin 0"
    and "fadd mc (py_max td (Fin 0)) \<noteq> Fin 0 \<longrightarrow>
           fdiv mc (fadd mc (py_max td (Fin 0))) = Inr (equity_weight r)
           \<and> fdiv (py_max td (Fin 0)) (fadd mc (py_max td (Fin 0))) = Inr (debt_weight r)"
  using assms
  by (auto simp: calculate_wacc_def bind_def Let_def truthy_def split: if_splits sum.splits)

lemma fdiv_zero_dividend:
  assumes "mc \<noteq> NaN" and "fadd mc (Fin 0) \<noteq> Fin 0"
  shows "fdiv (Fin 0) (fadd mc (Fin 0)) = Inr (Fin 0)"
proof (cases mc)
  case (Fin e)
  show ?thesis
  proof (cases "fl e")
    case (Fin t)
    with \<open>mc = Fin e\<close> assms(2) show ?thesis by (simp add: fl_zero)
  next
    case NaN
    then show ?thesis by (simp add: fl_def Let_def split: if_splits)
  qed (use \<open>mc = Fin e\<close> in simp_all)
qed (use assms in simp_all)

lemma fdiv_self:
  assumes "is_double e" and "e \<noteq> 0"
  shows "fadd (Fin e) (Fin 0) = Fin e" and "fdiv (Fin e) (Fin e) = Inr (Fin 1)"
    and "fdiv (Fin 0) (Fin e) = Inr (Fin 0)"
  using assms by (simp_all add: is_double_def fl_one fl_zero)

lemma wacc_eq:
  assumes "calculate_wacc mc td rf mrp cod tr b = Inr r"
  shows "wacc r = fadd (fmul (equity_weight r) (cost_of_equity r))
                       (fmul (debt_weight r) (after_tax_cost_of_debt r))"
    and "after_tax_cost_of_debt r = fmul cod (fsub (Fin 1) tr)"
  using assms
  by (auto simp: calculate_wacc_def bind_def Let_def split: if_splits sum.splits)

lemma py_max_nonneg: "py_max td (Fin 0) = Fin d \<Longrightarrow> 0 \<le> d"
  by (cases td) (auto simp: py_max_def split: if_splits)

lemma cost_of_equity_eq:
  assumes "calculate_wacc mc td rf mrp cod tr b = Inr r"
  shows "cost_of_equity r = fadd rf (fmul b mrp)"
  using assms
  by (auto simp: calculate_wacc_def bind_def Let_def split: if_splits sum.splits)

lemma fadd_Fin:
  assumes "fadd (Fin a) y = Fin c"
  shows "\<exists>p. y = Fin p \<and> c = rounded (a + p)"
  using assms by (cases y) (auto dest: fl_Fin)

lemma cost_of_equity_error:
  assumes "fadd (Fin rf) (fmul (Fin b) (Fin m)) = Fin c"
  shows "\<bar>c - (rf + b * m)\<bar>
           \<le> 2 powi (- 53) * (\<bar>b * m\<bar> + \<bar>rf + rounded (b * m)\<bar>) + 2 * 2 powi (- 1075)"
proof -
  obtain p where p: "fmul (Fin b) (Fin m) = Fin p" and c: "c = rounded (rf + p)"
    using fadd_Fin[OF assms] by blast
  have p': "p = rounded (b * m)" using p fl_Fin by simp
  have 1: "\<bar>p - b * m\<bar> \<le> 2 powi (- 53) * \<bar>b * m\<bar> + 2 powi (- 1075)"
    unfolding p' by (rule rounded_error)
  have 2: "\<bar>c - (rf + p)\<bar> \<le> 2 powi (- 53) * \<bar>rf + p\<bar> + 2 powi (- 1075)"
    unfolding c by (rule rounded_error)
  have "\<bar>c - (rf + b * m)\<bar> \<le> \<bar>c - (rf + p)\<bar> + \<bar>p - b * m\<bar>" by linarith
  also have "\<dots> \<le> (2 powi (- 53) * \<bar>rf + p\<bar> + 2 powi (- 1075))
                      + (2 powi (- 53) * \<bar>b * m\<bar> + 2 powi (- 1075))"
    using 1 2 by (rule add_mono[rotated])
  finally show ?thesis unfolding p' by (simp only: distrib_left)
qed

subsection \<open>Floats of the examples\<close>

text \<open>The binary64 values of the decimal literals and of the intermediate results of the examples.\<close>

lemma fl_tenth_0: "fl (1 / 10) = Fin (3602879701896397 / 36028797018963968)"
  using fl_eqI[of "- 4" "1 / 10" 7205759403792794] by simp

lemma fl_tenth_1: "fl (3 / 10) = Fin (5404319552844595 / 18014398509481984)"
  using fl_eqI[of "- 2" "3 / 10" 5404319552844595] by simp

lemma fl_tenth_2: "fl (3602879701896397 / 36028797018963968) = Fin (3602879701896397 / 36028797018963968)"
  using fl_eqI[of "- 4" "3602879701896397 / 36028797018963968" 7205759403792794] by simp

lemma fl_tenth_3: "fl (5404319552844595 / 18014398509481984) = Fin (5404319552844595 / 18014398509481984)"
  using fl_eqI[of "- 2" "5404319552844595 / 18014398509481984" 5404319552844595] by simp

lemma fl_tenth_4: "fl (14411518807585587 / 36028797018963968) = Fin (3602879701896397 / 9007199254740992)"
  using fl_tieI[of "- 2" "14411518807585587 / 36028797018963968" 7205759403792794] by simp

lemma fl_tenth_5: "fl (1 / 4) = Fin (1 / 4)"
  using fl_eqI[of "- 2" "1 / 4" 4503599627370496] by simp

lemma fl_tenth_6: "fl (5404319552844595 / 7205759403792794) = Fin (6755399441055743 / 9007199254740992)"
  using fl_eqI[of "- 1" "5404319552844595 / 7205759403792794" 6755399441055743] by simp

lemma fl_tenth_7: "fl (9007199254740991 / 9007199254740992) = Fin (9007199254740991 / 9007199254740992)"
  using fl_eqI[of "- 1" "9007199254740991 / 9007199254740992" 9007199254740991] by simp

lemmas tenth_values = fl_tenth_0 fl_tenth_1 fl_tenth_2 fl_tenth_3 fl_tenth_4 fl_tenth_5 fl_tenth_6 fl_tenth_7

lemma fl_scenario_0: "fl (3 / 100) = Fin (1080863910568919 / 36028797018963968)"
  using fl_eqI[of "- 6" "3 / 100" 8646911284551352] by simp

lemma fl_scenario_1: "fl (3 / 50) = Fin (1080863910568919 / 18014398509481984)"
  using fl_eqI[of "- 5" "3 / 50" 8646911284551352] by simp

lemma fl_scenario_2: "fl (1 / 20) = Fin (3602879701896397 / 72057594037927936)"
  using fl_eqI[of "- 5" "1 / 20" 7205759403792794] by simp

lemma fl_scenario_3: "fl (21 / 100) = Fin (7566047373982433 / 36028797018963968)"
  using fl_eqI[of "- 3" "21 / 100" 7566047373982433] by simp

lemma fl_scenario_4: "fl (6 / 5) = Fin (5404319552844595 / 4503599627370496)"
  using fl_eqI[of "0" "6 / 5" 5404319552844595] by simp

lemma fl_scenario_5: "fl (1000000) = Fin (1000000)"
  using fl_eqI[of "19" "1000000" 8589934592000000] by simp

lemma fl_scenario_6: "fl (4 / 5) = Fin (3602879701896397 / 4503599627370496)"
  using fl_eqI[of "- 1" "4 / 5" 7205759403792794] by simp

lemma fl_scenario_7: "fl (1 / 5) = Fin (3602879701896397 / 18014398509481984)"
  using fl_eqI[of "- 3" "1 / 5" 7205759403792794] by simp

lemma fl_scenario_8: "fl (5841333965851680649751244142805 / 81129638414606681695789005144064) = Fin (5188146770730811 / 72057594037927936)"
  using fl_eqI[of "- 4" "5841333965851680649751244142805 / 81129638414606681695789005144064" 5188146770730811] by simp

lemma fl_scenario_9: "fl (7349874591868649 / 72057594037927936) = Fin (7349874591868649 / 72057594037927936)"
  using fl_eqI[of "- 4" "7349874591868649 / 72057594037927936" 7349874591868649] by simp

lemma fl_scenario_10: "fl (28462749644981535 / 36028797018963968) = Fin (889460926405673 / 1125899906842624)"
  using fl_eqI[of "- 1" "28462749644981535 / 36028797018963968" 7115687411245384] by simp

lemma fl_scenario_11: "fl (3204620717376964248991039060181 / 81129638414606681695789005144064) = Fin (1423137482249077 / 36028797018963968)"
  using fl_eqI[of "- 5" "3204620717376964248991039060181 / 81129638414606681695789005144064" 5692549928996308] by simp

lemma fl_scenario_12: "fl (26480713978527620674921230357653 / 324518553658426726783156020576256) = Fin (734987459186865 / 9007199254740992)"
  using fl_eqI[of "- 4" "26480713978527620674921230357653 / 324518553658426726783156020576256" 5879899673494920] by simp

lemma fl_scenario_13: "fl (5127393147803143518961602875569 / 649037107316853453566312041152512) = Fin (4554039943197047 / 576460752303423488)"
  using fl_eqI[of "- 7" "5127393147803143518961602875569 / 649037107316853453566312041152512" 4554039943197047] by simp

lemma fl_scenario_14: "fl (51593237331156407 / 576460752303423488) = Fin (6449154666394551 / 72057594037927936)"
  using fl_eqI[of "- 4" "51593237331156407 / 576460752303423488" 6449154666394551] by simp

lemma fl_scenario_15: "fl (51 / 500) = Fin (7349874591868649 / 72057594037927936)"
  using fl_eqI[of "- 4" "51 / 500" 7349874591868649] by simp

lemma fl_scenario_16: "fl (79 / 2000) = Fin (5692549928996307 / 144115188075855872)"
  using fl_eqI[of "- 5" "79 / 2000" 5692549928996307] by simp

lemma fl_scenario_17: "fl (179 / 2000) = Fin (3224577333197275 / 36028797018963968)"
  using fl_eqI[of "- 4" "179 / 2000" 6449154666394550] by simp

lemmas scenario_2_values = fl_scenario_0 fl_scenario_1 fl_scenario_2 fl_scenario_3 fl_scenario_4 fl_scenario_5 fl_scenario_6 fl_scenario_7 fl_scenario_8 fl_scenario_9 fl_scenario_10 fl_scenario_11 fl_scenario_12 fl_scenario_13 fl_scenario_14 fl_scenario_15 fl_scenario_16 fl_scenario_17

lemma fl_default_0: "fl (1 / 25) = Fin (5764607523034235 / 144115188075855872)"
  using fl_eqI[of "- 5" "1 / 25" 5764607523034235] by simp

lemma fl_default_1: "fl (1 / 20) = Fin (3602879701896397 / 72057594037927936)"
  using fl_eqI[of "- 5" "1 / 20" 7205759403792794] by simp

lemma fl_default_2: "fl (1 / 4) = Fin (1 / 4)"
  using fl_eqI[of "- 2" "1 / 4" 4503599627370496] by simp

lemma fl_default_3: "fl (1000000) = Fin (1000000)"
  using fl_eqI[of "19" "1000000" 8589934592000000] by simp

lemma fl_default_4: "fl (1) = Fin (1)"
  using fl_eqI[of "0" "1" 4503599627370496] by simp

lemma fl_default_6: "fl (3602879701896397 / 36028797018963968) = Fin (3602879701896397 / 36028797018963968)"
  using fl_eqI[of "- 4" "3602879701896397 / 36028797018963968" 7205759403792794] by simp

lemma fl_default_7: "fl (20176126330619823 / 144115188075855872) = Fin (1261007895663739 / 9007199254740992)"
  using fl_eqI[of "- 3" "20176126330619823 / 144115188075855872" 5044031582654956] by simp

lemma fl_default_8: "fl (3 / 4) = Fin (3 / 4)"
  using fl_eqI[of "- 1" "3 / 4" 6755399441055744] by simp

lemma fl_default_9: "fl (17293822569102705 / 576460752303423488) = Fin (1080863910568919 / 36028797018963968)"
  using fl_tieI[of "- 6" "17293822569102705 / 576460752303423488" 8646911284551352] by simp

lemma fl_default_10: "fl (1261007895663739 / 9007199254740992) = Fin (1261007895663739 / 9007199254740992)"
  using fl_eqI[of "- 3" "1261007895663739 / 9007199254740992" 5044031582654956] by simp

lemma fl_default_11: "fl (3602879701896397 / 72057594037927936) = Fin (3602879701896397 / 72057594037927936)"
  using fl_eqI[of "- 5" "3602879701896397 / 72057594037927936" 7205759403792794] by simp

lemma fl_default_12: "fl (12970366926827029 / 144115188075855872) = Fin (3242591731706757 / 36028797018963968)"
  using fl_tieI[of "- 4" "12970366926827029 / 144115188075855872" 6485183463413514] by simp

lemma fl_default_13: "fl (3242591731706757 / 36028797018963968) = Fin (3242591731706757 / 36028797018963968)"
  using fl_eqI[of "- 4" "3242591731706757 / 36028797018963968" 6485183463413514] by simp

lemma fl_default_14: "fl (7 / 50) = Fin (1261007895663739 / 9007199254740992)"
  using fl_eqI[of "- 3" "7 / 50" 5044031582654956] by simp

lemma fl_default_15: "fl (9 / 100) = Fin (3242591731706757 / 36028797018963968)"
  using fl_eqI[of "- 4" "9 / 100" 6485183463413514] by simp

lemma fl_default_16: "fl (1801439850948199 / 36028797018963968) = Fin (1801439850948199 / 36028797018963968)"
  using fl_eqI[of "- 5" "1801439850948199 / 36028797018963968" 7205759403792796] by simp

lemmas default_values = fl_default_0 fl_default_1 fl_default_2 fl_default_3 fl_default_4 fl_default_6 fl_default_7 fl_default_8 fl_default_9 fl_default_10 fl_default_11 fl_default_12 fl_default_13 fl_default_14 fl_default_15 fl_default_16

lemma fl_negative_0: "fl (- 2559) = Fin (- 2559)"
  using fl_eqI[of "11" "- 2559" "- 5627300510957568"] by simp

lemma fl_negative_1: "fl (5123 / 2) = Fin (5123 / 2)"
  using fl_eqI[of "11" "5123 / 2" "5632798069096448"] by simp

lemma fl_negative_2: "fl (5 / 2) = Fin (5 / 2)"
  using fl_eqI[of "1" "5 / 2" "5629499534213120"] by simp

lemma fl_negative_3: "fl (- (5118 / 5)) = Fin (- (9003680817532109 / 8796093022208))"
  using fl_eqI[of "9" "- (5118 / 5)" "- 9003680817532109"] by simp

lemma fl_negative_4: "fl (5123 / 5) = Fin (2253119227638579 / 2199023255552)"
  using fl_eqI[of "10" "5123 / 5" "4506238455277158"] by simp

lemma fl_negative_5: "fl (8796093022207 / 8796093022208) = Fin (8796093022207 / 8796093022208)"
  using fl_eqI[of "- 1" "8796093022207 / 8796093022208" "9007199254739968"] by simp


lemmas negative_values = fl_negative_0 fl_negative_1 fl_negative_2 fl_negative_3 fl_negative_4 fl_negative_5

lemma tenth_result:
  "calculate_wacc (fl (1 / 10)) (fl (3 / 10)) (Fin 0) (Fin 0) (Fin 0) (Fin 0) (Fin 0)
     = Inr \<lparr>equity_weight = Fin (1 / 4), debt_weight = Fin (6755399441055743 / 9007199254740992),
            cost_of_equity = Fin 0, after_tax_cost_of_debt = Fin 0, wacc = Fin 0\<rparr>"
  by (simp add: calculate_wacc_def bind_def py_max_def truthy_def fsub_def Let_def
      fl_zero fl_one tenth_values)

lemma scenario_2_result:
  "calculate_wacc (Fin 800000) (Fin 200000) (fl (3 / 100)) (fl (6 / 100)) (fl (5 / 100))
       (fl (21 / 100)) (fl (12 / 10))
     = Inr \<lparr>equity_weight = fl (8 / 10), debt_weight = fl (2 / 10),
            cost_of_equity = fl (102 / 1000),
            after_tax_cost_of_debt = Fin (1423137482249077 / 36028797018963968),
            wacc = Fin (6449154666394551 / 72057594037927936)\<rparr>"
  by (simp add: calculate_wacc_def bind_def py_max_def truthy_def fsub_def Let_def scenario_2_values)

lemma default_result_2:
  "calculate_wacc (Fin 1000000) (Fin 0) (fl (4 / 100)) (fl (5 / 100)) (fl (4 / 100)) (fl (25 / 100)) (Fin 2)
     = Inr \<lparr>equity_weight = Fin 1, debt_weight = Fin 0, cost_of_equity = fl (14 / 100),
            after_tax_cost_of_debt = Fin (1080863910568919 / 36028797018963968), wacc = fl (14 / 100)\<rparr>"
  by (simp add: calculate_wacc_def bind_def py_max_def truthy_def fsub_def Let_def
      fl_zero default_values)

lemma default_result_1:
  "calculate_wacc (Fin 1000000) (Fin 0) (fl (4 / 100)) (fl (5 / 100)) (fl (4 / 100)) (fl (25 / 100)) (Fin 1)
     = Inr \<lparr>equity_weight = Fin 1, debt_weight = Fin 0, cost_of_equity = fl (9 / 100),
            after_tax_cost_of_debt = Fin (1080863910568919 / 36028797018963968), wacc = fl (9 / 100)\<rparr>"
  by (simp add: calculate_wacc_def bind_def py_max_def truthy_def fsub_def Let_def
      fl_zero default_values)

section \<open>Total-debt extraction\<close>

text \<open>
  The sheet \<open>sheet_two_debts\<close> has the row \<^verbatim>\<open>Long Term Debt\<close> (5 in the first column)
  above the row \<^verbatim>\<open>Total Debt\<close> (10 in the first column). The extraction returns 5, the
  value of the row that comes first in the sheet, not 10, the value of the synonym listed
  first among the debt labels.
\<close>

theorem priority_order_counterexample:
  "extract_total_debt (Some sheet_two_debts) = Inr (Some (Fin 5))
   \<and> extract_total_debt (Some sheet_two_debts) \<noteq> Inr (Some (Fin 10))"
  by code_simp

text \<open>
  Claim C3, as amended. For every well-formed balance sheet, total-debt extraction selects
  the first row in sheet order whose normalised label is any one of the five debt labels,
  whichever of them it is and whatever rows follow, and returns that row's value in the
  first column (the most recent reporting period), or no value when that value is
  not-a-number. The debt labels are a set: there is no priority among them.
\<close>

theorem first_matching_row_in_sheet_order:
  assumes "well_formed bs" and "rows bs = pre @ (l, v # vs) # post"
    and "\<forall>r \<in> set pre. normalize_label (fst r) \<notin> debt_labels"
    and "normalize_label l \<in> debt_labels"
  shows "extract_total_debt (Some bs) = Inr (if v = NaN then None else Some v)"
  using first_match_value[OF assms] .

theorem first_matching_row_in_sheet_order_witness:
  "well_formed sheet_two_debts
   \<and> rows sheet_two_debts
       = [(''Cash'', [Fin 7, Fin 8])] @ (''Long Term Debt'', Fin 5 # [Fin 6]) # [(''Total Debt'', [Fin 10, Fin 11])]
   \<and> normalize_label ''Cash'' \<notin> debt_labels
   \<and> normalize_label ''Long Term Debt'' \<in> debt_labels
   \<and> extract_total_debt (Some sheet_two_debts) = Inr (Some (Fin 5))"
proof -
  have r: "rows sheet_two_debts
       = [(''Cash'', [Fin 7, Fin 8])] @ (''Long Term Debt'', Fin 5 # [Fin 6]) # [(''Total Debt'', [Fin 10, Fin 11])]"
    by (simp add: sheet_two_debts_def)
  have p: "\<forall>r \<in> set [(''Cash'', [Fin 7, Fin 8 :: pyfloat])]. normalize_label (fst r) \<notin> debt_labels"
    by code_simp
  have m: "normalize_label ''Long Term Debt'' \<in> debt_labels"
    by code_simp
  from first_matching_row_in_sheet_order[OF well_formed_two_debts r p m]
  show ?thesis using well_formed_two_debts r p m by simp
qed

text \<open>
  In \<open>sheet_repeated_column\<close> both columns carry the label \<^verbatim>\<open>2023-12-31\<close>; in
  \<open>sheet_repeated_row\<close> two rows carry the label \<^verbatim>\<open>Long Term Debt\<close>. In both the first row
  with a debt label holds not-a-number in the first column, but the selection by labels is
  not a single value, \<^verbatim>\<open>math.isnan\<close> raises \<^verbatim>\<open>TypeError\<close>, and the extraction does not
  return \<^verbatim>\<open>None\<close>.
\<close>

theorem repeated_label_counterexample:
  "List.find (\<lambda>row. normalize_label (fst row) \<in> debt_labels) (rows sheet_repeated_column)
     = Some (''Long Term Debt'', [NaN, Fin 6])
   \<and> extract_total_debt (Some sheet_repeated_column) = Inl TypeError
   \<and> List.find (\<lambda>row. normalize_label (fst row) \<in> debt_labels) (rows sheet_repeated_row)
     = Some (''Long Term Debt'', [NaN, Fin 6])
   \<and> extract_total_debt (Some sheet_repeated_row) = Inl TypeError"
  by code_simp

text \<open>
  Claim C6, as amended. For every well-formed balance sheet (distinct row labels, distinct
  column labels, one value per column) whose first row with a matching debt label holds
  not-a-number in the first column (the most recent reporting period), total-debt
  extraction returns no value (\<^verbatim>\<open>None\<close>), not zero. The witness is the sheet whose row
  \<^verbatim>\<open>Long Term Debt\<close> has not-a-number in the most recent column.
\<close>

theorem nan_debt_is_no_value:
  assumes "well_formed bs"
    and "List.find (\<lambda>row. normalize_label (fst row) \<in> debt_labels) (rows bs) = Some (l, NaN # vs)"
  shows "extract_total_debt (Some bs) = Inr None"
  using extract_total_debt_find[OF assms(1)] assms(2) by simp

theorem nan_debt_is_no_value_witness:
  "well_formed sheet_nan_debt
   \<and> List.find (\<lambda>row. normalize_label (fst row) \<in> debt_labels) (rows sheet_nan_debt)
       = Some (''Long Term Debt'', NaN # [Fin 6])
   \<and> extract_total_debt (Some sheet_nan_debt) = Inr None
   \<and> extract_total_debt (Some sheet_nan_debt) \<noteq> Inr (Some (Fin 0))"
proof -
  have f: "List.find (\<lambda>row. normalize_label (fst row) \<in> debt_labels) (rows sheet_nan_debt)
       = Some (''Long Term Debt'', NaN # [Fin 6])"
    by code_simp
  from nan_debt_is_no_value[OF well_formed_nan_debt f]
  show ?thesis using well_formed_nan_debt f by simp
qed

text \<open>
  In \<open>sheet_repeated_later\<close> the first row with a debt label is \<^verbatim>\<open>Long Term Debt\<close>, with
  not-a-number in the first column, and a later row carries the same label with the finite
  value 5. The value is selected by label, so the later row is examined: the extraction
  raises \<^verbatim>\<open>TypeError\<close>, whereas on the sheet cut after the first or the second debt row it
  returns \<^verbatim>\<open>None\<close>.
\<close>

theorem later_row_counterexample:
  "List.find (\<lambda>row. normalize_label (fst row) \<in> debt_labels) (rows sheet_repeated_later)
     = Some (''Long Term Debt'', [NaN, Fin 6])
   \<and> extract_total_debt (Some sheet_repeated_later) = Inl TypeError
   \<and> extract_total_debt (Some (sheet_repeated_later\<lparr>rows := take 2 (rows sheet_repeated_later)\<rparr>))
       = Inr None
   \<and> extract_total_debt (Some (sheet_repeated_later\<lparr>rows := take 3 (rows sheet_repeated_later)\<rparr>))
       = Inr None"
  by code_simp

text \<open>
  Claim C10, as amended. On every well-formed balance sheet (distinct row labels, distinct
  column labels, one value per column) total-debt extraction stops at the first row, in
  sheet order, whose normalised label is a debt label: the result is the result on the
  sheet cut after that row, so no later row is examined; and if that row's first-column
  value is not-a-number the result is no value, even when a later row with a debt label
  holds a finite value (in the witness, \<^verbatim>\<open>Total Debt\<close> with 10 after \<^verbatim>\<open>Long Term Debt\<close>
  with not-a-number).
\<close>

theorem later_rows_are_not_examined:
  assumes "well_formed (bs\<lparr>rows := pre @ row # post\<rparr>)"
    and "\<forall>r \<in> set pre. normalize_label (fst r) \<notin> debt_labels"
    and "normalize_label (fst row) \<in> debt_labels"
  shows "extract_total_debt (Some (bs\<lparr>rows := pre @ row # post\<rparr>))
           = extract_total_debt (Some (bs\<lparr>rows := pre @ [row]\<rparr>))
         \<and> (hd (snd row) = NaN \<longrightarrow>
              extract_total_debt (Some (bs\<lparr>rows := pre @ row # post\<rparr>)) = Inr None)"
proof -
  let ?P = "\<lambda>row. normalize_label (fst row) \<in> debt_labels"
  have f1: "List.find ?P (pre @ row # post) = Some row"
    using assms(2,3) by (intro find_split) auto
  have f2: "List.find ?P (pre @ [row]) = Some row"
    using assms(2,3) by (intro find_split) auto
  have e: "empty (bs\<lparr>rows := pre @ row # post\<rparr>) = empty (bs\<lparr>rows := pre @ [row]\<rparr>)"
    by (simp add: empty_def)
  have 1: "extract_total_debt (Some (bs\<lparr>rows := pre @ row # post\<rparr>))
           = extract_total_debt (Some (bs\<lparr>rows := pre @ [row]\<rparr>))"
    using extract_total_debt_find[OF assms(1)] extract_total_debt_find[OF well_formed_prefix[OF assms(1)]]
      f1 f2 e by simp
  have 2: "hd (snd row) = NaN \<longrightarrow> extract_total_debt (Some (bs\<lparr>rows := pre @ row # post\<rparr>)) = Inr None"
    using extract_total_debt_find[OF assms(1)] f1 by simp
  from 1 2 show ?thesis by simp
qed

theorem later_rows_are_not_examined_witness:
  "well_formed (sheet_nan_debt\<lparr>rows := [(''Cash'', [Fin 7, Fin 8])] @ (''Long Term Debt'', [NaN, Fin 6])
       # [(''Total Debt'', [Fin 10, Fin 11])]\<rparr>)
   \<and> normalize_label ''Cash'' \<notin> debt_labels
   \<and> normalize_label (fst (''Long Term Debt'', [NaN, Fin 6 :: pyfloat])) \<in> debt_labels
   \<and> normalize_label ''Total Debt'' \<in> debt_labels
   \<and> hd (snd (''Long Term Debt'', [NaN, Fin 6 :: pyfloat])) = NaN
   \<and> extract_total_debt (Some (sheet_nan_debt\<lparr>rows := [(''Cash'', [Fin 7, Fin 8])]
         @ (''Long Term Debt'', [NaN, Fin 6]) # [(''Total Debt'', [Fin 10, Fin 11])]\<rparr>)) = Inr None"
proof -
  have w: "well_formed (sheet_nan_debt\<lparr>rows := [(''Cash'', [Fin 7, Fin 8])] @ (''Long Term Debt'', [NaN, Fin 6])
       # [(''Total Debt'', [Fin 10, Fin 11])]\<rparr>)"
    by (simp add: well_formed_def sheet_nan_debt_def index_def)
  have p: "\<forall>r \<in> set [(''Cash'', [Fin 7, Fin 8 :: pyfloat])]. normalize_label (fst r) \<notin> debt_labels"
    by code_simp
  have m: "normalize_label (fst (''Long Term Debt'', [NaN, Fin 6 :: pyfloat])) \<in> debt_labels"
    by code_simp
  have t: "normalize_label ''Total Debt'' \<in> debt_labels"
    by code_simp
  from later_rows_are_not_examined[OF w p m, THEN conjunct2]
  show ?thesis using w p m t by simp
qed

section \<open>Label matching\<close>

text \<open>
  The label of a tab followed by \<^verbatim>\<open>Total Debt\<close> matches, since \<^verbatim>\<open>strip\<close> removes the
  tab. With an underscore inserted in front, \<^verbatim>\<open>strip\<close> removes nothing, the tab stays in
  the normalised label, and the row no longer matches.
\<close>

theorem underscore_insertion_counterexample:
  "normalize_label (CHR 0x09 # ''Total Debt'') \<in> debt_labels
   \<and> normalize_label (CHR ''_'' # CHR 0x09 # ''Total Debt'') \<notin> debt_labels"
  by code_simp

text \<open>
  Claim C8, as amended. For row labels made of characters with code points below 256 (ASCII
  and the rest of Latin-1; the labels of type \<open>string\<close>): label normalisation, hence
  balance-sheet label matching, is invariant under case changes (two such labels with the
  same lower-case form), under insertion or removal of a space anywhere, and under
  insertion or removal of an underscore anywhere in a label whose only whitespace
  characters are spaces; every such row label whose normalisation equals the normalisation
  of a debt label matches; in particular \<^verbatim>\<open>Total Debt\<close>, \<^verbatim>\<open>total_debt\<close> and \<^verbatim>\<open>TOTALDEBT\<close>
  all normalise to the debt label \<^verbatim>\<open>totaldebt\<close>. Labels with characters of higher code
  points are not covered: there \<^verbatim>\<open>str.lower\<close> is not a character-by-character map.
\<close>

theorem label_matching_insensitive:
  "(lower l1 = lower l2 \<longrightarrow> normalize_label l1 = normalize_label l2)
   \<and> normalize_label (xs @ CHR '' '' # ys) = normalize_label (xs @ ys)
   \<and> (plain_spaces (xs @ ys) \<longrightarrow>
        normalize_label (xs @ CHR ''_'' # ys) = normalize_label (xs @ ys))
   \<and> (s \<in> debt_labels \<and> normalize_label l = normalize_label s \<longrightarrow>
        normalize_label l \<in> debt_labels)
   \<and> normalize_label ''Total Debt'' = ''totaldebt''
   \<and> normalize_label ''total_debt'' = ''totaldebt''
   \<and> normalize_label ''TOTALDEBT'' = ''totaldebt''
   \<and> ''totaldebt'' \<in> debt_labels"
proof -
  have 1: "normalize_label ''Total Debt'' = ''totaldebt''" by code_simp
  have 2: "normalize_label ''total_debt'' = ''totaldebt''" by code_simp
  have 3: "normalize_label ''TOTALDEBT'' = ''totaldebt''" by code_simp
  have 4: "''totaldebt'' \<in> debt_labels" by (simp add: debt_labels_def)
  show ?thesis
    using 1 2 3 4 normalize_label_case[of l1 l2] normalize_label_insert_space[of xs ys]
      normalize_label_insert_underscore[of xs ys] debt_labels_normal[of s]
    by auto
qed

theorem label_matching_insensitive_witness:
  "lower ''Total Debt'' = lower ''TOTAL debt''
   \<and> normalize_label ''Total Debt'' = normalize_label ''TOTAL debt''
   \<and> plain_spaces (''Total'' @ '' Debt'')
   \<and> normalize_label (''Total'' @ CHR ''_'' # '' Debt'') = normalize_label (''Total'' @ '' Debt'')
   \<and> ''longtermdebt'' \<in> debt_labels
   \<and> normalize_label ''Long_Term Debt'' = normalize_label ''longtermdebt''
   \<and> normalize_label ''Long_Term Debt'' \<in> debt_labels"
proof -
  have a: "lower ''Total Debt'' = lower ''TOTAL debt''" by code_simp
  have b: "plain_spaces (''Total'' @ '' Debt'')" by code_simp
  have c: "''longtermdebt'' \<in> debt_labels" by (simp add: debt_labels_def)
  have d: "normalize_label ''Long_Term Debt'' = normalize_label ''longtermdebt''" by code_simp
  from label_matching_insensitive[of "''Total Debt''" "''TOTAL debt''" "''Total''" "'' Debt''"
      "''longtermdebt''" "''Long_Term Debt''"]
  show ?thesis using a b c d by simp
qed

section \<open>Derived market capitalisation\<close>

text \<open>
  A snapshot without market capitalisation, with price 150.0 and shares outstanding 0:
  the condition \<^verbatim>\<open>and shares_outstanding\<close> is false for zero shares, and the fetcher returns
  no market capitalisation rather than the product 0.
\<close>

theorem zero_shares_counterexample:
  "fetch_ticker_metrics (ticker_of (no_fast_info\<lparr>fi_last_price := Some (Fin 150),
       fi_shares_outstanding := Some (Fin 0)\<rparr>))
     = Inr \<lparr>price = Some (Fin 150), shares_outstanding = Some (Fin 0), market_cap = None,
            beta = None, total_debt = None\<rparr>"
  by (simp add: fetch_ticker_metrics_def ticker_of_def no_fast_info_def py_or_def truthy_def
      get_first_balance_sheet_def extract_total_debt_def bind_def)

text \<open>
  Claim C4, as amended. For every fetch in which the snapshot's market capitalisation is
  absent, the price is present and shares outstanding is present and not zero, the fetcher
  returns the market capitalisation price times shares outstanding (the float product); in
  particular price 150.0 with 1000000 shares yields 150000000 (the witness). With shares
  outstanding equal to zero no market capitalisation is derived: it stays absent.
\<close>

theorem derived_market_cap:
  assumes "fetch_ticker_metrics t = Inr m" and "fi_market_cap (fast_info t) = None"
    and "price m = Some p" and "shares_outstanding m = Some s"
  shows "(s \<noteq> Fin 0 \<longrightarrow> market_cap m = Some (fmul p s))
         \<and> (s = Fin 0 \<longrightarrow> market_cap m = None)"
proof -
  obtain td where "extract_total_debt (get_first_balance_sheet (annual_balance_sheet t)
      (quarterly_balance_sheet t)) = Inr td"
    using assms(1) by (auto simp: fetch_ticker_metrics_def bind_def Let_def split: sum.splits)
  then show ?thesis
    using assms by (auto simp: fetch_ticker_metrics_def bind_def Let_def truthy_def split: if_splits)
qed

theorem derived_market_cap_witness:
  "fetch_ticker_metrics (ticker_of (no_fast_info\<lparr>fi_last_price := Some (Fin 150),
       fi_shares_outstanding := Some (Fin 1000000)\<rparr>))
     = Inr \<lparr>price = Some (Fin 150), shares_outstanding = Some (Fin 1000000),
            market_cap = Some (Fin 150000000), beta = None, total_debt = None\<rparr>
   \<and> fi_market_cap (fast_info (ticker_of (no_fast_info\<lparr>fi_last_price := Some (Fin 150),
       fi_shares_outstanding := Some (Fin 1000000)\<rparr>))) = None
   \<and> Fin 1000000 \<noteq> Fin 0"
proof -
  let ?t = "ticker_of (no_fast_info\<lparr>fi_last_price := Some (Fin 150),
       fi_shares_outstanding := Some (Fin 1000000)\<rparr>)"
  let ?m = "\<lparr>price = Some (Fin 150), shares_outstanding = Some (Fin 1000000),
            market_cap = Some (fmul (Fin 150) (Fin 1000000)), beta = None, total_debt = None\<rparr>"
  have f: "fetch_ticker_metrics ?t = Inr ?m"
    by (simp add: fetch_ticker_metrics_def ticker_of_def no_fast_info_def py_or_def truthy_def
      get_first_balance_sheet_def extract_total_debt_def bind_def)
  have c: "fi_market_cap (fast_info ?t) = None"
    by (simp add: ticker_of_def no_fast_info_def)
  from derived_market_cap[OF f c, of "Fin 150" "Fin 1000000"]
  have "market_cap ?m = Some (fmul (Fin 150) (Fin 1000000))" by simp
  then show ?thesis using f c by (simp add: fl_150000000)
qed

section \<open>Defaults of the submit handler\<close>

text \<open>
  A submission for a ticker whose fetched beta is present and equal to 0.0 reaches the
  computation step, and the beta passed to the calculator is 1.0: \<^verbatim>\<open>0.0 or 1.0\<close> is
  \<^verbatim>\<open>1.0\<close>.
\<close>

theorem zero_beta_counterexample:
  "fetch_ticker_metrics (ticker_of (no_fast_info\<lparr>fi_beta := Some (Fin 0)\<rparr>))
     = Inr \<lparr>price = None, shares_outstanding = None, market_cap = None,
            beta = Some (Fin 0), total_debt = None\<rparr>
   \<and> passed_beta (submit True ''AAPL'' (Fin 4) (Fin 5) (Fin 4) (Fin 25) (Fin 1000000)
         (ticker_of (no_fast_info\<lparr>fi_beta := Some (Fin 0)\<rparr>))) = Some (Fin 1)"
proof -
  let ?t = "ticker_of (no_fast_info\<lparr>fi_beta := Some (Fin 0)\<rparr>)"
  have f: "fetch_ticker_metrics ?t
     = Inr \<lparr>price = None, shares_outstanding = None, market_cap = None,
            beta = Some (Fin 0), total_debt = None\<rparr>"
    by (simp add: fetch_ticker_metrics_def ticker_of_def no_fast_info_def py_or_def truthy_def
      get_first_balance_sheet_def extract_total_debt_def bind_def)
  obtain rf mrp cod tr where p: "percent (Fin 4) = Inr rf" "percent (Fin 5) = Inr mrp"
    "percent (Fin 4) = Inr cod" "percent (Fin 25) = Inr tr"
    using percent_total by metis
  obtain r where "calculate_wacc (Fin 1000000) (Fin 0) rf mrp cod tr (Fin 1) = Inr r"
    using calculate_wacc_total by blast
  then have "passed_beta (submit True ''AAPL'' (Fin 4) (Fin 5) (Fin 4) (Fin 25) (Fin 1000000) ?t)
      = Some (Fin 1)"
    using f p by (simp add: submit_def bind_def py_or_def truthy_def)
  with f show ?thesis by simp
qed

text \<open>
  Claim C5, as amended. For every submission that reaches the computation step, the beta
  passed to the calculator is 1.0 when the fetched beta is absent or zero, and the fetched
  beta whenever it is present and not zero; the total debt passed is 0.0 when the fetched
  total debt is absent, and the fetched total debt whenever it is present.
\<close>

theorem defaults_for_absent_or_zero:
  assumes "fetch_ticker_metrics t = Inr m"
    and "submit submitted symbol rf_pct mrp_pct cod_pct tr_pct manual t = Inr (Computed mc b td r)"
  shows "b = (case beta m of None \<Rightarrow> Fin 1 | Some x \<Rightarrow> if x = Fin 0 then Fin 1 else x)
       \<and> td = (case total_debt m of None \<Rightarrow> Fin 0 | Some x \<Rightarrow> x)"
  using assms
  by (auto simp: submit_def bind_def py_or_def truthy_def Let_def
      split: if_splits option.splits sum.splits)

theorem defaults_for_absent_or_zero_witness:
  "fetch_ticker_metrics (ticker_of (no_fast_info\<lparr>fi_beta := Some (Fin 2)\<rparr>))
     = Inr \<lparr>price = None, shares_outstanding = None, market_cap = None,
            beta = Some (Fin 2), total_debt = None\<rparr>
   \<and> submit True ''AAPL'' (Fin 0) (Fin 0) (Fin 0) (Fin 0) (Fin 1)
         (ticker_of (no_fast_info\<lparr>fi_beta := Some (Fin 2)\<rparr>))
     = Inr (Computed (Fin 1) (Fin 2) (Fin 0)
         \<lparr>equity_weight = Fin 1, debt_weight = Fin 0, cost_of_equity = Fin 0,
          after_tax_cost_of_debt = Fin 0, wacc = Fin 0\<rparr>)"
proof -
  let ?t = "ticker_of (no_fast_info\<lparr>fi_beta := Some (Fin 2)\<rparr>)"
  let ?m = "\<lparr>price = None, shares_outstanding = None, market_cap = None,
            beta = Some (Fin 2), total_debt = None\<rparr>"
  let ?r = "\<lparr>equity_weight = Fin 1, debt_weight = Fin 0, cost_of_equity = Fin 0,
          after_tax_cost_of_debt = Fin 0, wacc = Fin 0\<rparr>"
  have f: "fetch_ticker_metrics ?t = Inr ?m"
    by (simp add: fetch_ticker_metrics_def ticker_of_def no_fast_info_def py_or_def truthy_def
      get_first_balance_sheet_def extract_total_debt_def bind_def)
  have p: "percent (Fin 0) = Inr (Fin 0)"
    by (simp add: percent_def fl_zero)
  obtain b td where s: "submit True ''AAPL'' (Fin 0) (Fin 0) (Fin 0) (Fin 0) (Fin 1) ?t
      = Inr (Computed (Fin 1) b td ?r)"
    using f p calculate_wacc_unit by (simp add: submit_def bind_def py_or_def truthy_def Let_def)
  from defaults_for_absent_or_zero[OF f s] have "b = Fin 2" "td = Fin 0" by simp_all
  with f s show ?thesis by simp
qed

section \<open>Clamping of negative debt\<close>

text \<open>
  Claim C7. For every total debt the calculator returns a result, and it weighs with
  \<^verbatim>\<open>debt_value = max(total_debt, 0)\<close>: with \<^verbatim>\<open>total_capital\<close> the float sum of the market
  capitalisation and \<^verbatim>\<open>debt_value\<close>, both weights are 0 when \<^verbatim>\<open>total_capital\<close> is zero and
  are otherwise the float quotients of the market capitalisation and of \<^verbatim>\<open>debt_value\<close> by
  \<^verbatim>\<open>total_capital\<close>; the returned WACC is the sum of these weights times the two costs; and
  the result is the result for the clamped debt. A negative total debt (minus infinity
  included) is clamped to zero and contributes exactly as zero debt: the result is the
  result for zero debt, the debt weight is 0 unless the market capitalisation is
  not-a-number, and for a finite market capitalisation other than zero the equity weight
  is 1. A total debt that is not negative is kept.
\<close>

theorem negative_debt_counts_as_zero:
  "\<exists>r. calculate_wacc mc td rf mrp cod tr b = Inr r
     \<and> (fadd mc (py_max td (Fin 0)) = Fin 0 \<longrightarrow>
          equity_weight r = Fin 0 \<and> debt_weight r = Fin 0)
     \<and> (fadd mc (py_max td (Fin 0)) \<noteq> Fin 0 \<longrightarrow>
          fdiv mc (fadd mc (py_max td (Fin 0))) = Inr (equity_weight r)
          \<and> fdiv (py_max td (Fin 0)) (fadd mc (py_max td (Fin 0))) = Inr (debt_weight r))
     \<and> wacc r = fadd (fmul (equity_weight r) (cost_of_equity r))
                     (fmul (debt_weight r) (after_tax_cost_of_debt r))
     \<and> calculate_wacc mc (py_max td (Fin 0)) rf mrp cod tr b = Inr r
     \<and> (flt td (Fin 0) \<longrightarrow>
          py_max td (Fin 0) = Fin 0
          \<and> calculate_wacc mc (Fin 0) rf mrp cod tr b = Inr r
          \<and> (mc \<noteq> NaN \<longrightarrow> debt_weight r = Fin 0)
          \<and> (is_double e \<and> e \<noteq> 0 \<and> mc = Fin e \<longrightarrow>
               equity_weight r = Fin 1 \<and> debt_weight r = Fin 0))
     \<and> (\<not> flt td (Fin 0) \<longrightarrow> py_max td (Fin 0) = td)"
proof -
  obtain r where r: "calculate_wacc mc td rf mrp cod tr b = Inr r"
    using calculate_wacc_total by blast
  note w = weights_eq[OF r]
  have c: "calculate_wacc mc (py_max td (Fin 0)) rf mrp cod tr b = Inr r"
    using r by (simp add: calculate_wacc_def py_max_idem)
  have k: "\<not> flt td (Fin 0) \<longrightarrow> py_max td (Fin 0) = td"
    by (simp add: py_max_def)
  have n: "py_max td (Fin 0) = Fin 0
          \<and> calculate_wacc mc (Fin 0) rf mrp cod tr b = Inr r
          \<and> (mc \<noteq> NaN \<longrightarrow> debt_weight r = Fin 0)
          \<and> (is_double e \<and> e \<noteq> 0 \<and> mc = Fin e \<longrightarrow>
               equity_weight r = Fin 1 \<and> debt_weight r = Fin 0)" if neg: "flt td (Fin 0)"
  proof -
    have m: "py_max td (Fin 0) = Fin 0" using neg by (simp add: py_max_def)
    have z: "calculate_wacc mc (Fin 0) rf mrp cod tr b = Inr r" using c m by simp
    have d: "debt_weight r = Fin 0" if "mc \<noteq> NaN"
    proof (cases "fadd mc (Fin 0) = Fin 0")
      case True
      then show ?thesis using w(1) m by simp
    next
      case False
      then have "fdiv (Fin 0) (fadd mc (Fin 0)) = Inr (debt_weight r)" using w(2) m by simp
      then show ?thesis using fdiv_zero_dividend[OF that False] by simp
    qed
    have o: "equity_weight r = Fin 1 \<and> debt_weight r = Fin 0"
      if h: "is_double e \<and> e \<noteq> 0 \<and> mc = Fin e"
    proof -
      have t: "fadd mc (py_max td (Fin 0)) = Fin e"
        using fdiv_self(1)[of e] h m by simp
      then have "fadd mc (py_max td (Fin 0)) \<noteq> Fin 0" using h by simp
      with w(2) t m h have "fdiv (Fin e) (Fin e) = Inr (equity_weight r)"
        and "fdiv (Fin 0) (Fin e) = Inr (debt_weight r)" by simp_all
      then show ?thesis using fdiv_self(2,3)[of e] h by simp
    qed
    from m z d o show ?thesis by blast
  qed
  from r w c k n wacc_eq(1)[OF r] show ?thesis by blast
qed

theorem negative_debt_counts_as_zero_witness:
  "flt (Fin (- 5)) (Fin 0)
   \<and> is_double 1000000 \<and> (1000000::rat) \<noteq> 0
   \<and> fadd (Fin 1000000) (py_max (Fin (- 5)) (Fin 0)) \<noteq> Fin 0
   \<and> py_max (Fin (- 5)) (Fin 0) = Fin 0
   \<and> calculate_wacc (Fin 1000000) (Fin (- 5)) (fl (4 / 100)) (fl (5 / 100)) (fl (4 / 100))
         (fl (25 / 100)) (Fin 2)
       = Inr \<lparr>equity_weight = Fin 1, debt_weight = Fin 0, cost_of_equity = fl (14 / 100),
            after_tax_cost_of_debt = Fin (1080863910568919 / 36028797018963968),
            wacc = fl (14 / 100)\<rparr>
   \<and> calculate_wacc (Fin 1000000) (Fin (- 5)) (fl (4 / 100)) (fl (5 / 100)) (fl (4 / 100))
         (fl (25 / 100)) (Fin 2)
       = calculate_wacc (Fin 1000000) (Fin 0) (fl (4 / 100)) (fl (5 / 100)) (fl (4 / 100))
         (fl (25 / 100)) (Fin 2)"
proof -
  have neg: "flt (Fin (- 5)) (Fin 0)" by simp
  have d: "is_double 1000000" by (simp add: is_double_def default_values)
  have m: "py_max (Fin (- 5)) (Fin 0) = Fin 0" by (simp add: py_max_def)
  have t: "fadd (Fin 1000000) (py_max (Fin (- 5)) (Fin 0)) \<noteq> Fin 0"
    by (simp add: m default_values)
  from negative_debt_counts_as_zero[of "Fin 1000000" "Fin (- 5)" "fl (4 / 100)" "fl (5 / 100)"
      "fl (4 / 100)" "fl (25 / 100)" "Fin 2" 1000000]
  obtain r where r: "calculate_wacc (Fin 1000000) (Fin (- 5)) (fl (4 / 100)) (fl (5 / 100))
         (fl (4 / 100)) (fl (25 / 100)) (Fin 2) = Inr r"
    and z: "calculate_wacc (Fin 1000000) (Fin 0) (fl (4 / 100)) (fl (5 / 100))
         (fl (4 / 100)) (fl (25 / 100)) (Fin 2) = Inr r"
    using neg by blast
  from z have "r = \<lparr>equity_weight = Fin 1, debt_weight = Fin 0, cost_of_equity = fl (14 / 100),
            after_tax_cost_of_debt = Fin (1080863910568919 / 36028797018963968),
            wacc = fl (14 / 100)\<rparr>"
    by (simp only: default_result_2 sum.inject)
  with r z neg d m t show ?thesis by simp
qed

section \<open>The weights\<close>

text \<open>
  Equity 0.1 and debt 0.3: the total is the float 0.4, the weights are 0.25 and
  0.7499999999999999, and their sum, as a float and exactly, is
  \<open>1 - 2 powi (- 53)\<close> (0.9999999999999999), not 1.
\<close>

theorem weights_sum_counterexample:
  "calculate_wacc (fl (1 / 10)) (fl (3 / 10)) (Fin 0) (Fin 0) (Fin 0) (Fin 0) (Fin 0)
     = Inr \<lparr>equity_weight = Fin (1 / 4), debt_weight = Fin (6755399441055743 / 9007199254740992),
            cost_of_equity = Fin 0, after_tax_cost_of_debt = Fin 0, wacc = Fin 0\<rparr>
   \<and> fadd (fl (1 / 10)) (py_max (fl (3 / 10)) (Fin 0)) = fl (4 / 10)
   \<and> flt (Fin 0) (fl (4 / 10))
   \<and> fadd (Fin (1 / 4)) (Fin (6755399441055743 / 9007199254740992)) = Fin (9007199254740991 / 9007199254740992)
   \<and> 1 / 4 + 6755399441055743 / 9007199254740992 \<noteq> (1::rat)"
proof -
  have "fl (4 / 10) = Fin (3602879701896397 / 9007199254740992)"
    using fl_eqI[of "- 2" "2 / 5" 7205759403792794] by simp
  then show ?thesis
    unfolding tenth_result by (simp add: py_max_def tenth_values)
qed

text \<open>
  Claim C1, as amended. No call of the calculator raises a division error. With the debt
  taken after clamping: if the total capital (the float sum of equity and debt) is zero,
  both returned weights are zero; if the equity is a float that is not negative, the debt
  is a float, and the total capital is finite and greater than zero, then
  the two returned weights are finite and their sum, exact or as a float, is within
  \<open>2 powi (- 51)\<close> (about 4.4e-16) of 1. The weights are rounded quotients: their sum
  need not be exactly 1.
\<close>

theorem weights_sum_to_one_up_to_rounding:
  "\<exists>r. calculate_wacc mc td rf mrp cod tr b = Inr r
     \<and> (fadd mc (py_max td (Fin 0)) = Fin 0 \<longrightarrow>
          equity_weight r = Fin 0 \<and> debt_weight r = Fin 0)
     \<and> (mc = Fin e \<and> is_double e \<and> 0 \<le> e
          \<and> py_max td (Fin 0) = Fin d \<and> is_double d
          \<and> fadd mc (py_max td (Fin 0)) = Fin t \<and> 0 < t \<longrightarrow>
          (\<exists>ew dw s. equity_weight r = Fin ew \<and> debt_weight r = Fin dw
             \<and> \<bar>ew + dw - 1\<bar> \<le> 2 powi (- 51)
             \<and> fadd (Fin ew) (Fin dw) = Fin s \<and> \<bar>s - 1\<bar> \<le> 2 powi (- 51)))"
proof -
  obtain r where r: "calculate_wacc mc td rf mrp cod tr b = Inr r"
    using calculate_wacc_total by blast
  have "\<exists>ew dw s. equity_weight r = Fin ew \<and> debt_weight r = Fin dw
           \<and> \<bar>ew + dw - 1\<bar> \<le> 2 powi (- 51)
           \<and> fadd (Fin ew) (Fin dw) = Fin s \<and> \<bar>s - 1\<bar> \<le> 2 powi (- 51)"
    if h: "mc = Fin e" "is_double e" "0 \<le> e" "py_max td (Fin 0) = Fin d" "is_double d"
      "fadd mc (py_max td (Fin 0)) = Fin t" "0 < t"
  proof -
    have t: "fl (e + d) = Fin t" using h(1,4,6) by simp
    obtain ew dw s where w: "fl (e / t) = Fin ew" "fl (d / t) = Fin dw" "fl (ew + dw) = Fin s"
      "\<bar>s - 1\<bar> \<le> 2 powi (- 51)" "\<bar>ew + dw - 1\<bar> \<le> 2 powi (- 51)"
      using weights_sum[OF h(2) h(5) h(3) py_max_nonneg[OF h(4)] t h(7)] by blast
    have "fadd mc (py_max td (Fin 0)) \<noteq> Fin 0" using h(6,7) by simp
    with weights_eq(2)[OF r] have "fdiv mc (Fin t) = Inr (equity_weight r)"
      "fdiv (Fin d) (Fin t) = Inr (debt_weight r)" using h(4,6) by simp_all
    then have "equity_weight r = Fin ew" "debt_weight r = Fin dw"
      using h(1,7) w(1,2) by simp_all
    then show ?thesis using w(3,4,5) by simp
  qed
  with r weights_eq(1)[OF r] show ?thesis by blast
qed

theorem weights_sum_to_one_up_to_rounding_witness:
  "calculate_wacc (Fin (3602879701896397 / 36028797018963968)) (Fin (5404319552844595 / 18014398509481984)) (Fin 0) (Fin 0) (Fin 0) (Fin 0) (Fin 0)
     = Inr \<lparr>equity_weight = Fin (1 / 4), debt_weight = Fin (6755399441055743 / 9007199254740992),
            cost_of_equity = Fin 0, after_tax_cost_of_debt = Fin 0, wacc = Fin 0\<rparr>
   \<and> is_double (3602879701896397 / 36028797018963968) \<and> (0::rat) \<le> 3602879701896397 / 36028797018963968
   \<and> py_max (Fin (5404319552844595 / 18014398509481984)) (Fin 0) = Fin (5404319552844595 / 18014398509481984)
   \<and> is_double (5404319552844595 / 18014398509481984)
   \<and> fadd (Fin (3602879701896397 / 36028797018963968)) (py_max (Fin (5404319552844595 / 18014398509481984)) (Fin 0)) = Fin (3602879701896397 / 9007199254740992)
   \<and> (0::rat) < 3602879701896397 / 9007199254740992
   \<and> \<bar>1 / 4 + 6755399441055743 / 9007199254740992 - 1\<bar> \<le> (2::rat) powi (- 51)
   \<and> fadd (Fin (1 / 4)) (Fin (6755399441055743 / 9007199254740992)) = Fin (9007199254740991 / 9007199254740992)
   \<and> \<bar>9007199254740991 / 9007199254740992 - 1\<bar> \<le> (2::rat) powi (- 51)
   \<and> fadd (Fin 0) (py_max (Fin (- 5)) (Fin 0)) = Fin 0
   \<and> calculate_wacc (Fin 0) (Fin (- 5)) (Fin 0) (Fin 0) (Fin 0) (Fin 0) (Fin 0)
     = Inr \<lparr>equity_weight = Fin 0, debt_weight = Fin 0,
            cost_of_equity = Fin 0, after_tax_cost_of_debt = Fin 0, wacc = Fin 0\<rparr>"
proof -
  let ?E = "3602879701896397 / 36028797018963968 :: rat"
  let ?D = "5404319552844595 / 18014398509481984 :: rat"
  let ?T = "3602879701896397 / 9007199254740992 :: rat"
  let ?R = "\<lparr>equity_weight = Fin (1 / 4), debt_weight = Fin (6755399441055743 / 9007199254740992),
            cost_of_equity = Fin 0, after_tax_cost_of_debt = Fin 0, wacc = Fin 0\<rparr>"
  have c: "calculate_wacc (Fin ?E) (Fin ?D) (Fin 0) (Fin 0) (Fin 0) (Fin 0) (Fin 0) = Inr ?R"
    using tenth_result by (simp add: tenth_values)
  have e: "is_double ?E" and d: "is_double ?D"
    by (simp_all add: is_double_def tenth_values)
  have m: "py_max (Fin ?D) (Fin 0) = Fin ?D" by (simp add: py_max_def)
  have t: "fadd (Fin ?E) (py_max (Fin ?D) (Fin 0)) = Fin ?T"
    by (simp add: py_max_def tenth_values)
  have z: "fadd (Fin 0) (py_max (Fin (- 5)) (Fin 0)) = Fin 0"
    by (simp add: py_max_def fl_zero)
  have cz: "calculate_wacc (Fin 0) (Fin (- 5)) (Fin 0) (Fin 0) (Fin 0) (Fin 0) (Fin 0)
     = Inr \<lparr>equity_weight = Fin 0, debt_weight = Fin 0,
            cost_of_equity = Fin 0, after_tax_cost_of_debt = Fin 0, wacc = Fin 0\<rparr>"
    by (simp add: calculate_wacc_def bind_def py_max_def truthy_def fsub_def Let_def fl_zero fl_one)
  obtain r where r: "calculate_wacc (Fin ?E) (Fin ?D) (Fin 0) (Fin 0) (Fin 0) (Fin 0) (Fin 0) = Inr r"
    and imp: "Fin ?E = Fin ?E \<and> is_double ?E \<and> 0 \<le> ?E
          \<and> py_max (Fin ?D) (Fin 0) = Fin ?D \<and> is_double ?D
          \<and> fadd (Fin ?E) (py_max (Fin ?D) (Fin 0)) = Fin ?T \<and> 0 < ?T \<longrightarrow>
          (\<exists>ew dw s. equity_weight r = Fin ew \<and> debt_weight r = Fin dw
             \<and> \<bar>ew + dw - 1\<bar> \<le> 2 powi (- 51)
             \<and> fadd (Fin ew) (Fin dw) = Fin s \<and> \<bar>s - 1\<bar> \<le> 2 powi (- 51))"
    using weights_sum_to_one_up_to_rounding[of "Fin ?E" "Fin ?D" "Fin 0" "Fin 0" "Fin 0" "Fin 0" "Fin 0"
      ?E ?D ?T] by blast
  have rR: "r = ?R" using r c by simp
  have pos: "(0::rat) \<le> ?E" "(0::rat) < ?T" by simp_all
  from imp e d m t pos obtain ew dw s where w: "equity_weight r = Fin ew" "debt_weight r = Fin dw"
    "\<bar>ew + dw - 1\<bar> \<le> 2 powi (- 51)" "fadd (Fin ew) (Fin dw) = Fin s"
    "\<bar>s - 1\<bar> \<le> 2 powi (- 51)"
    by blast
  have ew: "ew = 1 / 4" and dw: "dw = 6755399441055743 / 9007199254740992"
    using w(1,2) rR by simp_all
  have sv: "fadd (Fin (1 / 4)) (Fin (6755399441055743 / 9007199254740992))
      = Fin (9007199254740991 / 9007199254740992)"
    by (simp add: tenth_values)
  then have s: "s = 9007199254740991 / 9007199254740992" using w(4) ew dw by simp
  have b1: "\<bar>1 / 4 + 6755399441055743 / 9007199254740992 - 1\<bar> \<le> (2::rat) powi (- 51)"
    using w(3) unfolding ew dw .
  have b2: "\<bar>9007199254740991 / 9007199254740992 - 1\<bar> \<le> (2::rat) powi (- 51)"
    using w(5) unfolding s .
  show ?thesis using c e d m t z cz sv b1 b2 pos by (intro conjI)
qed

text \<open>
  The bound needs an equity that is not negative. Equity -2559 and debt 2561.5 give the
  total 2.5 and the weights -1023.6 and 1024.6, whose rounding errors are far larger than
  \<open>2 powi (- 51)\<close>: their float sum is \<open>1 - 2 powi (- 43)\<close>.
\<close>

lemma negative_equity_example:
  "calculate_wacc (Fin (- 2559)) (Fin (5123 / 2)) (Fin 0) (Fin 0) (Fin 0) (Fin 0) (Fin 0)
     = Inr \<lparr>equity_weight = Fin (- (9003680817532109 / 8796093022208)),
            debt_weight = Fin (2253119227638579 / 2199023255552),
            cost_of_equity = Fin 0, after_tax_cost_of_debt = Fin 0, wacc = Fin 0\<rparr>
   \<and> fadd (Fin (- 2559)) (py_max (Fin (5123 / 2)) (Fin 0)) = Fin (5 / 2)
   \<and> fadd (Fin (- (9003680817532109 / 8796093022208))) (Fin (2253119227638579 / 2199023255552))
       = Fin (1 - 2 powi (- 43))"
  by (simp add: calculate_wacc_def bind_def py_max_def truthy_def fsub_def Let_def
      fl_zero fl_one negative_values)

section \<open>Scenario 2\<close>

text \<open>
  Scenario 2 in floats: the after-tax cost of debt and the WACC that the calculator
  returns are not the floats 0.0395 and 0.0895.
\<close>

theorem scenario_2_counterexample:
  "calculate_wacc (Fin 800000) (Fin 200000) (fl (3 / 100)) (fl (6 / 100)) (fl (5 / 100))
       (fl (21 / 100)) (fl (12 / 10))
     \<noteq> Inr \<lparr>equity_weight = fl (8 / 10), debt_weight = fl (2 / 10),
            cost_of_equity = fl (102 / 1000),
            after_tax_cost_of_debt = fl (395 / 10000),
            wacc = fl (895 / 10000)\<rparr>"
  unfolding scenario_2_result by (simp add: scenario_2_values)

text \<open>
  Claim C2, as amended. The calculator applied to equity 800000, debt 200000, risk-free
  rate 0.03, market risk premium 0.06, beta 1.2, cost of debt 0.05 and tax rate 0.21
  (each decimal standing for its float) returns exactly the floats 0.8, 0.2 and 0.102 as
  equity weight, debt weight and cost of equity, and returns as after-tax cost of debt
  and WACC the floats 0.03950000000000001 and 0.08950000000000001: each the float next
  above the float 0.0395, resp. 0.0895 (one unit in the last place, \<open>2 powi (- 57)\<close> resp.
  \<open>2 powi (- 56)\<close>, above it).
\<close>

theorem scenario_2_one_ulp_above:
  "calculate_wacc (Fin 800000) (Fin 200000) (fl (3 / 100)) (fl (6 / 100)) (fl (5 / 100))
       (fl (21 / 100)) (fl (12 / 10))
     = Inr \<lparr>equity_weight = fl (8 / 10), debt_weight = fl (2 / 10),
            cost_of_equity = fl (102 / 1000),
            after_tax_cost_of_debt = Fin (1423137482249077 / 36028797018963968),
            wacc = Fin (6449154666394551 / 72057594037927936)\<rparr>
   \<and> fl (395 / 10000) = Fin (1423137482249077 / 36028797018963968 - 2 powi (- 57))
   \<and> fl (895 / 10000) = Fin (6449154666394551 / 72057594037927936 - 2 powi (- 56))"
  unfolding scenario_2_result by (simp add: scenario_2_values)

section \<open>Cost of equity and beta\<close>

text \<open>
  Risk-free rate 0.04 and market risk premium 0.05, beta doubled from 1 to 2: the cost of
  equity goes from the float 0.09 to the float 0.14. Their difference, as a float
  (0.05000000000000002) and exactly, is not the market risk premium times the difference
  in beta (0.05).
\<close>

theorem doubling_beta_counterexample:
  "map_sum id cost_of_equity
      (calculate_wacc (Fin 1000000) (Fin 0) (fl (4 / 100)) (fl (5 / 100)) (fl (4 / 100))
         (fl (25 / 100)) (Fin 2)) = Inr (fl (14 / 100))
   \<and> map_sum id cost_of_equity
      (calculate_wacc (Fin 1000000) (Fin 0) (fl (4 / 100)) (fl (5 / 100)) (fl (4 / 100))
         (fl (25 / 100)) (Fin 1)) = Inr (fl (9 / 100))
   \<and> fsub (fl (14 / 100)) (fl (9 / 100)) \<noteq> fmul (fl (5 / 100)) (fsub (Fin 2) (Fin 1))
   \<and> fl (14 / 100) = Fin (1261007895663739 / 9007199254740992)
   \<and> fl (9 / 100) = Fin (3242591731706757 / 36028797018963968)
   \<and> fl (5 / 100) = Fin (3602879701896397 / 72057594037927936)
   \<and> 1261007895663739 / 9007199254740992 - 3242591731706757 / 36028797018963968 \<noteq> 3602879701896397 / 72057594037927936 * (2 - (1::rat))"
  unfolding default_result_2 default_result_1
  by (simp add: fsub_def default_values)

text \<open>
  Claim C9, as amended. The cost of equity is the rounded sum of the risk-free rate and the
  rounded product of beta and the market risk premium, so it is linear in beta up to
  rounding: for every fixed finite risk-free rate and market risk premium and every pair
  of finite beta values with finite costs of equity \<open>c1\<close> and \<open>c2\<close>, the difference
  \<open>c1 - c2\<close> differs from the market risk premium times the difference in beta by at most
  \<open>2 powi (- 53)\<close> times the sum of the magnitudes of the two exact products and the two
  exact sums that were rounded, plus \<open>4 * 2 powi (- 1075)\<close> for underflow.
\<close>

theorem cost_of_equity_linear_up_to_rounding:
  assumes "calculate_wacc mc1 td1 (Fin rf) (Fin m) cod1 tr1 (Fin b1) = Inr r1"
    and "calculate_wacc mc2 td2 (Fin rf) (Fin m) cod2 tr2 (Fin b2) = Inr r2"
    and "cost_of_equity r1 = Fin c1" and "cost_of_equity r2 = Fin c2"
  shows "\<bar>(c1 - c2) - m * (b1 - b2)\<bar>
           \<le> 2 powi (- 53) * (\<bar>b1 * m\<bar> + \<bar>rf + rounded (b1 * m)\<bar>
                              + \<bar>b2 * m\<bar> + \<bar>rf + rounded (b2 * m)\<bar>)
             + 4 * 2 powi (- 1075)"
proof -
  have 1: "fadd (Fin rf) (fmul (Fin b1) (Fin m)) = Fin c1"
    using cost_of_equity_eq[OF assms(1)] assms(3) by simp
  have 2: "fadd (Fin rf) (fmul (Fin b2) (Fin m)) = Fin c2"
    using cost_of_equity_eq[OF assms(2)] assms(4) by simp
  have "(c1 - c2) - m * (b1 - b2) = (c1 - (rf + b1 * m)) - (c2 - (rf + b2 * m))"
    by (simp add: algebra_simps)
  then have "\<bar>(c1 - c2) - m * (b1 - b2)\<bar> \<le> \<bar>c1 - (rf + b1 * m)\<bar> + \<bar>c2 - (rf + b2 * m)\<bar>"
    by linarith
  also have "\<dots> \<le> (2 powi (- 53) * (\<bar>b1 * m\<bar> + \<bar>rf + rounded (b1 * m)\<bar>) + 2 * 2 powi (- 1075))
      + (2 powi (- 53) * (\<bar>b2 * m\<bar> + \<bar>rf + rounded (b2 * m)\<bar>) + 2 * 2 powi (- 1075))"
    using cost_of_equity_error[OF 1] cost_of_equity_error[OF 2] by (rule add_mono)
  finally show ?thesis by (simp only: distrib_left)
qed

theorem cost_of_equity_linear_up_to_rounding_witness:
  "calculate_wacc (Fin 1000000) (Fin 0) (Fin (5764607523034235 / 144115188075855872)) (Fin (3602879701896397 / 72057594037927936))
       (Fin (5764607523034235 / 144115188075855872)) (Fin (1 / 4)) (Fin 2)
     = Inr \<lparr>equity_weight = Fin 1, debt_weight = Fin 0,
            cost_of_equity = Fin (1261007895663739 / 9007199254740992),
            after_tax_cost_of_debt = Fin (1080863910568919 / 36028797018963968),
            wacc = Fin (1261007895663739 / 9007199254740992)\<rparr>
   \<and> calculate_wacc (Fin 1000000) (Fin 0) (Fin (5764607523034235 / 144115188075855872)) (Fin (3602879701896397 / 72057594037927936))
       (Fin (5764607523034235 / 144115188075855872)) (Fin (1 / 4)) (Fin 1)
     = Inr \<lparr>equity_weight = Fin 1, debt_weight = Fin 0,
            cost_of_equity = Fin (3242591731706757 / 36028797018963968),
            after_tax_cost_of_debt = Fin (1080863910568919 / 36028797018963968),
            wacc = Fin (3242591731706757 / 36028797018963968)\<rparr>
   \<and> \<bar>(1261007895663739 / 9007199254740992 - 3242591731706757 / 36028797018963968) - 3602879701896397 / 72057594037927936 * (2 - 1)\<bar>
       \<le> 2 powi (- 53) * (\<bar>2 * (3602879701896397 / 72057594037927936)\<bar>
              + \<bar>5764607523034235 / 144115188075855872 + rounded (2 * (3602879701896397 / 72057594037927936))\<bar>
              + \<bar>1 * (3602879701896397 / 72057594037927936)\<bar>
              + \<bar>5764607523034235 / 144115188075855872 + rounded (1 * (3602879701896397 / 72057594037927936))\<bar>)
         + 4 * (2::rat) powi (- 1075)"
proof -
  let ?RF = "5764607523034235 / 144115188075855872 :: rat"
  let ?M = "3602879701896397 / 72057594037927936 :: rat"
  let ?C1 = "1261007895663739 / 9007199254740992 :: rat"
  let ?C2 = "3242591731706757 / 36028797018963968 :: rat"
  let ?R1 = "\<lparr>equity_weight = Fin 1, debt_weight = Fin 0, cost_of_equity = Fin ?C1,
            after_tax_cost_of_debt = Fin (1080863910568919 / 36028797018963968), wacc = Fin ?C1\<rparr>"
  let ?R2 = "\<lparr>equity_weight = Fin 1, debt_weight = Fin 0, cost_of_equity = Fin ?C2,
            after_tax_cost_of_debt = Fin (1080863910568919 / 36028797018963968), wacc = Fin ?C2\<rparr>"
  have r1: "calculate_wacc (Fin 1000000) (Fin 0) (Fin ?RF) (Fin ?M) (Fin ?RF) (Fin (1 / 4)) (Fin 2)
      = Inr ?R1"
    using default_result_2 by (simp add: default_values)
  have r2: "calculate_wacc (Fin 1000000) (Fin 0) (Fin ?RF) (Fin ?M) (Fin ?RF) (Fin (1 / 4)) (Fin 1)
      = Inr ?R2"
    using default_result_1 by (simp add: default_values)
  have c1: "cost_of_equity ?R1 = Fin ?C1" and c2: "cost_of_equity ?R2 = Fin ?C2" by simp_all
  from cost_of_equity_linear_up_to_rounding[OF r1 r2 c1 c2] r1 r2
  show ?thesis by (simp only:)
qed

end
